theory Spec2Isabelle
  imports
    Complex_Main
    "HOL-Library.Char_ord"
    "HOL-Library.List_Lexorder"
    "HOL-Library.Multiset"
    "HOL-Library.Product_Lexorder"
begin

section \<open>Structured values and canonical hashing (src/utils/crypto.js)\<close>

text \<open>
  A submitted result is whatever \<^verbatim>\<open>JSON.parse\<close> produced from the request body:
  null, a boolean, a number, a string, an array or an object. An object is kept as the
  list of its properties in enumeration order; its keys are pairwise distinct.
  Numbers are kept by their exact value.
\<close>

datatype json =
    JNull
  | JBool bool
  | JNum rat
  | JStr string
  | JArr "json list"
  | JObj "(string \<times> json) list"

text \<open>
  The functions of the platform that the source calls and does not define:
  the SHA-256 hex digest of a string, the text of a number (\<^verbatim>\<open>String(n)\<close>, which is also
  what \<^verbatim>\<open>JSON.stringify\<close> prints for it), the quoting of a string by
  \<^verbatim>\<open>JSON.stringify\<close>, the number that a string converts to (not a number, or an
  infinity, for some strings), the product of two numbers as the platform rounds it
  (\<^verbatim>\<open>5000 * 0.57\<close> is \<^verbatim>\<open>2849.9999999999995\<close>, and a large product is an infinity)
  and the text that the database driver sends for an array parameter.
\<close>

datatype jsnum = Fin rat | PosInf | NegInf | NaN

record platform =
  digest :: "string \<Rightarrow> string"
  number_to_string :: "rat \<Rightarrow> string"
  quote_json :: "string \<Rightarrow> string"
  string_to_number :: "string \<Rightarrow> jsnum"
  product :: "rat \<Rightarrow> rat \<Rightarrow> jsnum"
  array_literal :: "json list \<Rightarrow> string"

subsection \<open>Property order of an object\<close>

text \<open>
  A key that is the canonical decimal text of an integer below \<open>2^32 - 1\<close> is an array
  index. An object enumerates its array-index keys first, in ascending numeric order, and
  then its other keys in the order in which they were created.
\<close>

definition is_digit :: "char \<Rightarrow> bool" where
  "is_digit c = (CHR ''0'' \<le> c \<and> c \<le> CHR ''9'')"

definition digit_value :: "char \<Rightarrow> int" where
  "digit_value c = of_char c - 48"

definition decimal_value :: "string \<Rightarrow> int" where
  "decimal_value s = foldl (\<lambda>acc c. 10 * acc + digit_value c) 0 s"

definition array_index :: "string \<Rightarrow> int option" where
  "array_index s =
     (if s \<noteq> [] \<and> list_all is_digit s \<and> (s = ''0'' \<or> hd s \<noteq> CHR ''0'')
         \<and> decimal_value s < 4294967295
      then Some (decimal_value s) else None)"

definition obj_keys :: "(string \<times> 'a) list \<Rightarrow> string list" where
  "obj_keys obj = map fst obj"

definition obj_get :: "(string \<times> 'a) list \<Rightarrow> string \<Rightarrow> 'a option" where
  "obj_get obj key = map_of obj key"

fun obj_insert_index :: "int \<Rightarrow> string \<Rightarrow> 'a \<Rightarrow> (string \<times> 'a) list \<Rightarrow> (string \<times> 'a) list" where
  "obj_insert_index i key v [] = [(key, v)]"
| "obj_insert_index i key v ((k, w) # rest) =
     (case array_index k of
        Some j \<Rightarrow>
          if j < i then (k, w) # obj_insert_index i key v rest
          else (key, v) # (k, w) # rest
      | None \<Rightarrow> (key, v) # (k, w) # rest)"

text \<open>
  The assignment \<^verbatim>\<open>obj[key] = v\<close> on an object that was created as \<^verbatim>\<open>{}\<close> and
  filled by such assignments. The key \<^verbatim>\<open>__proto__\<close> names the inherited accessor of
  the prototype: assigning to it adds no property, so the properties stay as they are.
\<close>

definition obj_set :: "(string \<times> 'a) list \<Rightarrow> string \<Rightarrow> 'a \<Rightarrow> (string \<times> 'a) list" where
  "obj_set obj key v =
     (if key = ''__proto__'' then obj
      else if key \<in> set (obj_keys obj)
      then map (\<lambda>(k, w). if k = key then (k, v) else (k, w)) obj
      else case array_index key of
             Some i \<Rightarrow> obj_insert_index i key v obj
           | None \<Rightarrow> obj @ [(key, v)])"

subsection \<open>sortObject\<close>

text \<open>
  \<^verbatim>\<open>
  function sortObject(obj) {
    if (typeof obj !== 'object' || obj === null) return obj;
    if (Array.isArray(obj)) return obj.map(sortObject);
    return Object.keys(obj).sort().reduce((sorted, key) => {
      sorted[key] = sortObject(obj[key]);
      return sorted;
    }, {});
  }
  \<close>
  \<open>sort_props\<close> is the \<^verbatim>\<open>reduce\<close> over the sorted keys, on an object whose property
  values have already been sorted; \<open>sortObject_JObj\<close> below gives the equation in the
  shape of the source. A key of \<^verbatim>\<open>Object.keys(obj)\<close> is always found in \<^verbatim>\<open>obj\<close>, so
  the branch \<open>None\<close> is never taken. The keys are sorted as byte strings.
\<close>

definition sort_props :: "(string \<times> 'a) list \<Rightarrow> (string \<times> 'a) list" where
  "sort_props obj =
     foldl (\<lambda>sorted key. case obj_get obj key of
                             Some v \<Rightarrow> obj_set sorted key v
                           | None \<Rightarrow> sorted)
       [] (sort (obj_keys obj))"

primrec sortObject :: "json \<Rightarrow> json" where
  "sortObject JNull = JNull"
| "sortObject (JBool b) = JBool b"
| "sortObject (JNum n) = JNum n"
| "sortObject (JStr s) = JStr s"
| "sortObject (JArr xs) = JArr (map sortObject xs)"
| "sortObject (JObj kvs) = JObj (sort_props (map (map_prod id sortObject) kvs))"

subsection \<open>JSON.stringify and hashResult\<close>

fun join_with :: "string \<Rightarrow> string list \<Rightarrow> string" where
  "join_with sep [] = []"
| "join_with sep [x] = x"
| "join_with sep (x # y # ys) = x @ sep @ join_with sep (y # ys)"

primrec stringify :: "platform \<Rightarrow> json \<Rightarrow> string" where
  "stringify P JNull = ''null''"
| "stringify P (JBool b) = (if b then ''true'' else ''false'')"
| "stringify P (JNum n) = number_to_string P n"
| "stringify P (JStr s) = quote_json P s"
| "stringify P (JArr xs) = ''['' @ join_with '','' (map (stringify P) xs) @ '']''"
| "stringify P (JObj kvs) =
     ''{'' @ join_with '','' (map (\<lambda>kv. quote_json P (fst kv) @ '':'' @ snd kv)
                                 (map (map_prod id (stringify P)) kvs)) @ ''}''"

text \<open>
  \<^verbatim>\<open>
  function sha256(data) {
    if (typeof data === 'object') data = JSON.stringify(data);
    return crypto.createHash('sha256').update(data).digest('hex');
  }
  function hashResult(result) {
    const normalized = typeof result === 'object'
      ? JSON.stringify(sortObject(result)) : String(result);
    return sha256(normalized);
  }
  \<close>
  \<^verbatim>\<open>typeof\<close> is \<^verbatim>\<open>'object'\<close> for null, arrays and objects. \<open>hashResult\<close> hands
  \<open>sha256\<close> a string, so only that branch of \<open>sha256\<close> is modelled.
\<close>

definition sha256 :: "platform \<Rightarrow> string \<Rightarrow> string" where
  "sha256 P data = digest P data"

fun typeof_object :: "json \<Rightarrow> bool" where
  "typeof_object JNull = True"
| "typeof_object (JArr xs) = True"
| "typeof_object (JObj kvs) = True"
| "typeof_object v = False"

text \<open>
  The conversion of a value to a string (\<^verbatim>\<open>String(v)\<close>, and the conversion of a
  property key), which can throw a \<^verbatim>\<open>TypeError\<close> (\<open>None\<close>). A string is itself. An
  object that is not an array is converted by its \<^verbatim>\<open>toString\<close> and, failing that, its
  \<^verbatim>\<open>valueOf\<close>. An own property \<^verbatim>\<open>toString\<close> of a parsed value is not a function and
  hides the inherited one; \<^verbatim>\<open>valueOf\<close>, own or inherited, gives no primitive value
  either, so the conversion throws. Without an own \<^verbatim>\<open>toString\<close> the inherited one
  answers \<^verbatim>\<open>[object Object]\<close>. An array is the texts of its elements joined by commas,
  with null printed as the empty string; it throws when the conversion of an element
  does.
\<close>

primrec String_of :: "platform \<Rightarrow> json \<Rightarrow> string option" where
  "String_of P JNull = Some ''null''"
| "String_of P (JBool b) = Some (if b then ''true'' else ''false'')"
| "String_of P (JNum n) = Some (number_to_string P n)"
| "String_of P (JStr s) = Some s"
| "String_of P (JArr xs) =
     map_option (join_with '','')
       (those (map (\<lambda>e. if fst e = JNull then Some [] else snd e)
                  (zip xs (map (String_of P) xs))))"
| "String_of P (JObj kvs) =
     (if ''toString'' \<in> set (map fst kvs) then None else Some ''[object Object]'')"

text \<open>
  \<open>hashResult\<close> converts with \<^verbatim>\<open>String\<close> only a value that is not an object: a
  boolean, a number or a string, for which the conversion does not throw.
\<close>

definition hashResult :: "platform \<Rightarrow> json \<Rightarrow> string" where
  "hashResult P result =
     sha256 P (if typeof_object result then stringify P (sortObject result)
               else (case String_of P result of Some text \<Rightarrow> text | None \<Rightarrow> []))"

text \<open>Two values are equal up to the order of the keys of their objects, at any depth.\<close>

inductive json_equiv :: "json \<Rightarrow> json \<Rightarrow> bool" where
  equiv_null: "json_equiv JNull JNull"
| equiv_bool: "json_equiv (JBool b) (JBool b)"
| equiv_num: "json_equiv (JNum n) (JNum n)"
| equiv_str: "json_equiv (JStr s) (JStr s)"
| equiv_arr: "list_all2 json_equiv xs ys \<Longrightarrow> json_equiv (JArr xs) (JArr ys)"
| equiv_obj:
    "list_all2 (\<lambda>p q. fst p = fst q \<and> json_equiv (snd p) (snd q)) xs ys' \<Longrightarrow>
     mset ys' = mset ys \<Longrightarrow> distinct (map fst xs) \<Longrightarrow>
     json_equiv (JObj xs) (JObj ys)"

section \<open>The store (schema.sql)\<close>

text \<open>
  Each table is the list of its rows; a row is a record of the columns that the queue,
  the verifier and the submit route read or write. \<^verbatim>\<open>DECIMAL\<close> columns hold exact
  rationals, \<^verbatim>\<open>TIMESTAMP\<close> columns a clock reading, a nullable column an option.
  \<^verbatim>\<open>NOW()\<close> is the clock reading \<open>now\<close> handed to each operation. One operation runs
  at a time: each is the whole of its transaction.

  The store refuses a statement that writes a value outside the range of its column: an
  \<^verbatim>\<open>INTEGER\<close> outside 32 bits (\<open>int32\<close>), a \<^verbatim>\<open>DECIMAL(p,s)\<close> with more than \<open>p - s\<close>
  digits before the point (\<open>decimal_fits\<close>), a \<^verbatim>\<open>VARCHAR(128)\<close> longer than 128
  characters, a \<^verbatim>\<open>JSONB\<close> whose text holds the escape \<^verbatim>\<open>\u0000\<close> (\<open>holds_nul\<close>).
  The statement then raises an error; inside a transaction the operation rolls back,
  which leaves the store as it was, and throws. A sum of values of the scale of a
  \<^verbatim>\<open>DECIMAL\<close> column has that scale, so no write rounds.
\<close>

record user =
  u_id :: nat
  u_device_id :: "string option"
  u_total_compute_credits :: rat
  u_claimable_balance :: rat
  u_total_earned :: rat

record compute_task =
  ct_id :: nat
  ct_task_uuid :: string
  ct_task_type :: string
  ct_priority :: int
  ct_expected_output_hash :: "string option"
  ct_reward_credits :: rat
  ct_requires_gpu :: bool
  ct_redundancy_count :: int
  ct_status :: string
  ct_created_at :: nat
  ct_expires_at :: "nat option"

record task_assignment =
  ta_id :: nat
  ta_task_id :: nat
  ta_user_id :: nat
  ta_device_id :: string
  ta_status :: string
  ta_result_hash :: "string option"
  ta_result_data :: "string option"
  ta_execution_time_ms :: "int option"
  ta_completed_at :: "nat option"
  ta_verified :: bool
  ta_credits_awarded :: rat

record task_result =
  tr_task_id :: nat
  tr_consensus_hash :: "string option"
  tr_total_submissions :: nat
  tr_matching_submissions :: nat
  tr_consensus_reached :: bool
  tr_verified_at :: nat

record earning =
  e_user_id :: nat
  e_earned_amount :: rat
  e_earning_type :: string
  e_task_id :: nat

record node_trust =
  nt_device_id :: string
  nt_trust_score :: rat
  nt_total_tasks_completed :: int
  nt_successful_tasks :: int
  nt_failed_tasks :: int
  nt_canary_failures :: int
  nt_last_failure_at :: "nat option"
  nt_banned :: bool
  nt_banned_at :: "nat option"
  nt_ban_reason :: "string option"
  nt_updated_at :: "nat option"

record canary_task =
  cn_task_uuid :: string
  cn_task_type :: string
  cn_known_output_hash :: string

record db =
  users :: "user list"
  compute_tasks :: "compute_task list"
  task_assignments :: "task_assignment list"
  task_results :: "task_result list"
  earnings :: "earning list"
  node_trust_rows :: "node_trust list"
  canary_tasks :: "canary_task list"
  task_assignments_seq :: nat

text \<open>\<^verbatim>\<open>UPDATE t SET ... WHERE cond\<close>: every row that meets the condition is rewritten.\<close>

definition update_where :: "('r \<Rightarrow> bool) \<Rightarrow> ('r \<Rightarrow> 'r) \<Rightarrow> 'r list \<Rightarrow> 'r list" where
  "update_where cond f rows = map (\<lambda>r. if cond r then f r else r) rows"

definition int32 :: "int \<Rightarrow> bool" where
  "int32 x = (- 2147483648 \<le> x \<and> x \<le> 2147483647)"

definition decimal_fits :: "nat \<Rightarrow> rat \<Rightarrow> bool" where
  "decimal_fits digits x = (\<bar>x\<bar> < 10 ^ digits)"

text \<open>
  \<^verbatim>\<open>JSON.stringify\<close> writes the escape \<^verbatim>\<open>\u0000\<close> for the character NUL of a string or
  of a key, at any depth. A number is written by its text, which is made of digits, a
  sign, a point and an exponent on the platform of the source and so holds no NUL; the
  clause for a number reads that text.
\<close>

definition nul_in :: "string \<Rightarrow> bool" where
  "nul_in s = (CHR 0x00 \<in> set s)"

primrec holds_nul :: "platform \<Rightarrow> json \<Rightarrow> bool" where
  "holds_nul P JNull = False"
| "holds_nul P (JBool b) = False"
| "holds_nul P (JNum n) = nul_in (number_to_string P n)"
| "holds_nul P (JStr s) = nul_in s"
| "holds_nul P (JArr xs) = list_ex (\<lambda>b. b) (map (holds_nul P) xs)"
| "holds_nul P (JObj kvs) =
     list_ex (\<lambda>kv. nul_in (fst kv) \<or> snd kv) (map (map_prod id (holds_nul P)) kvs)"

section \<open>Trust records (src/queue/taskQueue.js, src/verification/verifier.js)\<close>

text \<open>
  \<^verbatim>\<open>
  async updateTrustScore(client, deviceId, success) {
    if (success) {
      UPDATE node_trust SET successful_tasks = successful_tasks + 1,
             total_tasks_completed = total_tasks_completed + 1,
             trust_score = LEAST(100, trust_score + 0.5), updated_at = NOW()
       WHERE device_id = $1
    } else {
      UPDATE node_trust SET failed_tasks = failed_tasks + 1,
             total_tasks_completed = total_tasks_completed + 1,
             trust_score = GREATEST(0, trust_score - 5),
             last_failure_at = NOW(), updated_at = NOW()
       WHERE device_id = $1
    }
  }
  \<close>
\<close>

definition updateTrustScore :: "nat \<Rightarrow> db \<Rightarrow> string \<Rightarrow> bool \<Rightarrow> db" where
  "updateTrustScore now st deviceId success =
     (if success then
        st\<lparr>node_trust_rows := update_where (\<lambda>r. nt_device_id r = deviceId)
             (\<lambda>r. r\<lparr>nt_successful_tasks := nt_successful_tasks r + 1,
                    nt_total_tasks_completed := nt_total_tasks_completed r + 1,
                    nt_trust_score := min 100 (nt_trust_score r + 1 / 2),
                    nt_updated_at := Some now\<rparr>)
             (node_trust_rows st)\<rparr>
      else
        st\<lparr>node_trust_rows := update_where (\<lambda>r. nt_device_id r = deviceId)
             (\<lambda>r. r\<lparr>nt_failed_tasks := nt_failed_tasks r + 1,
                    nt_total_tasks_completed := nt_total_tasks_completed r + 1,
                    nt_trust_score := max 0 (nt_trust_score r - 5),
                    nt_last_failure_at := Some now,
                    nt_updated_at := Some now\<rparr>)
             (node_trust_rows st)\<rparr>)"

text \<open>
  \<^verbatim>\<open>
  async getNodeTrustScore(deviceId) {
    rows = SELECT trust_score, banned FROM node_trust WHERE device_id = $1
    if (rows.length === 0) {
      INSERT INTO node_trust (device_id, trust_score) VALUES ($1, 100)
        ON CONFLICT (device_id) DO NOTHING
      return 100;
    }
    if (rows[0].banned) return 0;
    return parseFloat(rows[0].trust_score);
  }
  \<close>
  The other columns of the new row take the defaults of the schema.
\<close>

definition new_node_trust :: "string \<Rightarrow> node_trust" where
  "new_node_trust deviceId =
     \<lparr>nt_device_id = deviceId, nt_trust_score = 100, nt_total_tasks_completed = 0,
      nt_successful_tasks = 0, nt_failed_tasks = 0, nt_canary_failures = 0,
      nt_last_failure_at = None, nt_banned = False, nt_banned_at = None,
      nt_ban_reason = None, nt_updated_at = None\<rparr>"

definition getNodeTrustScore :: "db \<Rightarrow> string \<Rightarrow> rat \<times> db" where
  "getNodeTrustScore st deviceId =
     (case filter (\<lambda>r. nt_device_id r = deviceId) (node_trust_rows st) of
        [] \<Rightarrow> (100, st\<lparr>node_trust_rows := node_trust_rows st @ [new_node_trust deviceId]\<rparr>)
      | r # _ \<Rightarrow> (if nt_banned r then 0 else nt_trust_score r, st))"

text \<open>
  \<^verbatim>\<open>
  async recordCanaryResult(deviceId, passed) {
    if (passed) {
      UPDATE node_trust SET trust_score = LEAST(100, trust_score + 2), updated_at = NOW()
       WHERE device_id = $1
    } else {
      UPDATE node_trust SET trust_score = GREATEST(0, trust_score - 15),
             canary_failures = canary_failures + 1,
             last_failure_at = NOW(), updated_at = NOW()
       WHERE device_id = $1
      rows = SELECT canary_failures FROM node_trust WHERE device_id = $1
      if (rows.length > 0 && rows[0].canary_failures >= 3)
        await this.banNode(deviceId, 'Multiple canary verification failures');
    }
  }
  async banNode(deviceId, reason) {
    UPDATE node_trust SET banned = true, banned_at = NOW(), ban_reason = $2, trust_score = 0
     WHERE device_id = $1
  }
  \<close>
\<close>

definition banNode :: "nat \<Rightarrow> db \<Rightarrow> string \<Rightarrow> string \<Rightarrow> db" where
  "banNode now st deviceId reason =
     st\<lparr>node_trust_rows := update_where (\<lambda>r. nt_device_id r = deviceId)
          (\<lambda>r. r\<lparr>nt_banned := True, nt_banned_at := Some now,
                 nt_ban_reason := Some reason, nt_trust_score := 0\<rparr>)
          (node_trust_rows st)\<rparr>"

definition recordCanaryResult :: "nat \<Rightarrow> db \<Rightarrow> string \<Rightarrow> bool \<Rightarrow> db" where
  "recordCanaryResult now st deviceId passed =
     (if passed then
        st\<lparr>node_trust_rows := update_where (\<lambda>r. nt_device_id r = deviceId)
             (\<lambda>r. r\<lparr>nt_trust_score := min 100 (nt_trust_score r + 2),
                    nt_updated_at := Some now\<rparr>)
             (node_trust_rows st)\<rparr>
      else
        let st1 = st\<lparr>node_trust_rows := update_where (\<lambda>r. nt_device_id r = deviceId)
                    (\<lambda>r. r\<lparr>nt_trust_score := max 0 (nt_trust_score r - 15),
                           nt_canary_failures := nt_canary_failures r + 1,
                           nt_last_failure_at := Some now,
                           nt_updated_at := Some now\<rparr>)
                    (node_trust_rows st)\<rparr>
        in case filter (\<lambda>r. nt_device_id r = deviceId) (node_trust_rows st1) of
             [] \<Rightarrow> st1
           | r # _ \<Rightarrow>
               if nt_canary_failures r \<ge> 3
               then banNode now st1 deviceId ''Multiple canary verification failures''
               else st1)"

section \<open>Submitting a result (src/queue/taskQueue.js)\<close>

text \<open>
  What a call of \<open>submitResult\<close> gives its caller: one of the three answers of the
  source, or \<open>Thrown\<close> when the call throws. A call throws when the store refuses one of
  its statements; the handler of the source rolls the transaction back and throws the
  error again, so the store is then the one before the call.
\<close>

datatype response =
    Submission bool rat string
  | CanaryVerdict bool rat
  | Failure string
  | Thrown

text \<open>
  \<^verbatim>\<open>
  async verifyCanaryResult(deviceId, taskUuid, resultHash) {
    rows = SELECT * FROM canary_tasks WHERE task_uuid = $1
    if (rows.length === 0) return { success: false, error: 'Canary task not found' };
    const canary = rows[0];
    const passed = resultHash === canary.known_output_hash;
    try {
      BEGIN
      if (!passed) {
        UPDATE node_trust SET canary_failures = canary_failures + 1,
               trust_score = GREATEST(0, trust_score - 10),
               last_failure_at = NOW(), updated_at = NOW() WHERE device_id = $1
        trust = SELECT canary_failures, trust_score FROM node_trust WHERE device_id = $1
        if (trust.length > 0 && trust[0].canary_failures >= 3)
          UPDATE node_trust SET banned = true, banned_at = NOW(),
                 ban_reason = 'Multiple canary failures' WHERE device_id = $1
      } else {
        UPDATE node_trust SET successful_tasks = successful_tasks + 1,
               trust_score = LEAST(100, trust_score + 1), updated_at = NOW()
         WHERE device_id = $1
      }
      COMMIT
      return { success: true, verified: passed, is_canary: true,
               credits_awarded: passed ? 0.5 : 0 };
    } catch (error) { ROLLBACK; throw error; }
  }
  \<close>
  The store refuses the first update when a counter of a row of the node would leave the
  range of its \<^verbatim>\<open>INTEGER\<close> column. A trust score within the range of its column stays
  within it under these updates.
\<close>

definition verifyCanaryResult :: "nat \<Rightarrow> db \<Rightarrow> string \<Rightarrow> string \<Rightarrow> string \<Rightarrow> response \<times> db" where
  "verifyCanaryResult now st deviceId taskUuid resultHash =
     (case filter (\<lambda>c. cn_task_uuid c = taskUuid) (canary_tasks st) of
        [] \<Rightarrow> (Failure ''Canary task not found'', st)
      | canary # _ \<Rightarrow>
          let passed = (resultHash = cn_known_output_hash canary) in
          if \<not> passed then
            if \<not> list_all (\<lambda>r. int32 (nt_canary_failures r + 1))
                   (filter (\<lambda>r. nt_device_id r = deviceId) (node_trust_rows st))
            then (Thrown, st) else
            let st1 = st\<lparr>node_trust_rows := update_where (\<lambda>r. nt_device_id r = deviceId)
                        (\<lambda>r. r\<lparr>nt_canary_failures := nt_canary_failures r + 1,
                               nt_trust_score := max 0 (nt_trust_score r - 10),
                               nt_last_failure_at := Some now,
                               nt_updated_at := Some now\<rparr>)
                        (node_trust_rows st)\<rparr>;
                st2 = (case filter (\<lambda>r. nt_device_id r = deviceId) (node_trust_rows st1) of
                         [] \<Rightarrow> st1
                       | trust # _ \<Rightarrow>
                           if nt_canary_failures trust \<ge> 3
                           then st1\<lparr>node_trust_rows := update_where (\<lambda>r. nt_device_id r = deviceId)
                                  (\<lambda>r. r\<lparr>nt_banned := True, nt_banned_at := Some now,
                                         nt_ban_reason := Some ''Multiple canary failures''\<rparr>)
                                  (node_trust_rows st1)\<rparr>
                           else st1)
            in (CanaryVerdict passed 0, st2)
          else
            if \<not> list_all (\<lambda>r. int32 (nt_successful_tasks r + 1))
                   (filter (\<lambda>r. nt_device_id r = deviceId) (node_trust_rows st))
            then (Thrown, st) else
            (CanaryVerdict passed (1 / 2),
             st\<lparr>node_trust_rows := update_where (\<lambda>r. nt_device_id r = deviceId)
                  (\<lambda>r. r\<lparr>nt_successful_tasks := nt_successful_tasks r + 1,
                         nt_trust_score := min 100 (nt_trust_score r + 1),
                         nt_updated_at := Some now\<rparr>)
                  (node_trust_rows st)\<rparr>))"

text \<open>
  The rows of
  \<^verbatim>\<open>
  SELECT result_hash, COUNT(*) as count FROM task_assignments
   WHERE task_id = $1 AND status = 'completed'
   GROUP BY result_hash ORDER BY count DESC
  \<close>
  \<open>group_counts\<close> is the grouping. The query orders the groups by their count only, so
  the order of two groups with the same count is the store's choice: the order \<open>ord\<close>
  is a parameter of the model, and \<open>valid_order\<close> says what the query promises of it.
  \<open>count_desc\<close> and \<open>count_desc_rev\<close> are two such orders, which differ on ties.
\<close>

type_synonym result_group = "string option \<times> nat"

type_synonym row_order = "result_group list \<Rightarrow> result_group list"

definition group_counts :: "string option list \<Rightarrow> result_group list" where
  "group_counts hs = map (\<lambda>h. (h, count_list hs h)) (remdups hs)"

definition completed_hashes :: "db \<Rightarrow> nat \<Rightarrow> string option list" where
  "completed_hashes st task_id =
     map ta_result_hash
       (filter (\<lambda>a. ta_task_id a = task_id \<and> ta_status a = ''completed'') (task_assignments st))"

definition all_results :: "row_order \<Rightarrow> db \<Rightarrow> nat \<Rightarrow> result_group list" where
  "all_results ord st task_id = ord (group_counts (completed_hashes st task_id))"

definition valid_order :: "row_order \<Rightarrow> bool" where
  "valid_order ord =
     (\<forall>gs. mset (ord gs) = mset gs \<and> sorted_wrt (\<lambda>a b. snd b \<le> snd a) (ord gs))"

definition count_desc :: row_order where
  "count_desc gs = sort_key (\<lambda>g. - int (snd g)) gs"

definition count_desc_rev :: row_order where
  "count_desc_rev gs = rev (sort_key (\<lambda>g. int (snd g)) gs)"

text \<open>
  \<^verbatim>\<open>
  rows = SELECT ta.*, ct.expected_output_hash, ct.reward_credits, ct.redundancy_count,
                u.id as user_id, u.wallet_address
           FROM task_assignments ta
           JOIN compute_tasks ct ON ta.task_id = ct.id
           JOIN users u ON ta.user_id = u.id
          WHERE ct.task_uuid = $1 AND ta.device_id = $2 FOR UPDATE
  \<close>
\<close>

definition select_assignments :: "db \<Rightarrow> string \<Rightarrow> string \<Rightarrow> (task_assignment \<times> compute_task \<times> user) list" where
  "select_assignments st taskUuid deviceId =
     concat (map (\<lambda>ta.
       concat (map (\<lambda>ct.
         concat (map (\<lambda>u.
           if ta_task_id ta = ct_id ct \<and> ta_user_id ta = u_id u
              \<and> ct_task_uuid ct = taskUuid \<and> ta_device_id ta = deviceId
           then [(ta, ct, u)] else [])
         (users st)))
       (compute_tasks st)))
     (task_assignments st))"

text \<open>A string column read in a condition: null and the empty string are falsy.\<close>

definition truthy_text :: "string option \<Rightarrow> bool" where
  "truthy_text h = (case h of None \<Rightarrow> False | Some s \<Rightarrow> s \<noteq> [])"

text \<open>
  \<^verbatim>\<open>
  if (topResult.result_hash === resultHash) {
    if (assignment.expected_output_hash) {
      verified = resultHash === assignment.expected_output_hash;
    } else {
      verified = parseInt(topResult.count) >= Math.ceil(assignment.redundancy_count / 2);
    }
  }
  \<close>
\<close>

definition is_verified :: "result_group \<Rightarrow> string \<Rightarrow> string option \<Rightarrow> int \<Rightarrow> bool" where
  "is_verified topResult resultHash expected_output_hash redundancy_count =
     (if fst topResult = Some resultHash then
        (if truthy_text expected_output_hash
         then Some resultHash = expected_output_hash
         else int (snd topResult) \<ge> \<lceil>(of_int redundancy_count :: rat) / 2\<rceil>)
      else False)"

text \<open>
  \<^verbatim>\<open>
  if (verified) {
    creditsAwarded = parseFloat(assignment.reward_credits);
    UPDATE task_assignments SET verified = true, credits_awarded = $1 WHERE id = $2
    UPDATE users SET total_compute_credits = total_compute_credits + $1,
                     claimable_balance = claimable_balance + $1,
                     total_earned = total_earned + $1 WHERE id = $2
    INSERT INTO earnings (user_id, earned_amount, earning_type, task_id)
         VALUES ($1, $2, 'compute', $3)
    await this.updateTrustScore(client, deviceId, true);
  }
  \<close>
  The four statements run inside the transaction of \<open>processRegularResult\<close>. The result
  is \<open>None\<close> when the store refuses one of them: the credit does not fit
  \<^verbatim>\<open>credits_awarded DECIMAL(12,6)\<close>, a balance of the user would leave
  \<^verbatim>\<open>DECIMAL(18,6)\<close>, or a counter of the trust record would leave \<^verbatim>\<open>INTEGER\<close>.
\<close>

definition award_credits :: "nat \<Rightarrow> db \<Rightarrow> task_assignment \<Rightarrow> rat \<Rightarrow> string \<Rightarrow> db option" where
  "award_credits now st assignment creditsAwarded deviceId =
     (if decimal_fits 6 creditsAwarded
         \<and> list_all (\<lambda>u. decimal_fits 12 (u_total_compute_credits u + creditsAwarded)
                        \<and> decimal_fits 12 (u_claimable_balance u + creditsAwarded)
                        \<and> decimal_fits 12 (u_total_earned u + creditsAwarded))
              (filter (\<lambda>u. u_id u = ta_user_id assignment) (users st))
         \<and> list_all (\<lambda>r. int32 (nt_successful_tasks r + 1)
                        \<and> int32 (nt_total_tasks_completed r + 1))
              (filter (\<lambda>r. nt_device_id r = deviceId) (node_trust_rows st))
      then Some (updateTrustScore now
       (st\<lparr>task_assignments := update_where (\<lambda>a. ta_id a = ta_id assignment)
             (\<lambda>a. a\<lparr>ta_verified := True, ta_credits_awarded := creditsAwarded\<rparr>)
             (task_assignments st),
           users := update_where (\<lambda>u. u_id u = ta_user_id assignment)
             (\<lambda>u. u\<lparr>u_total_compute_credits := u_total_compute_credits u + creditsAwarded,
                    u_claimable_balance := u_claimable_balance u + creditsAwarded,
                    u_total_earned := u_total_earned u + creditsAwarded\<rparr>)
             (users st),
           earnings := earnings st @
             [\<lparr>e_user_id = ta_user_id assignment, e_earned_amount = creditsAwarded,
               e_earning_type = ''compute'', e_task_id = ta_task_id assignment\<rparr>]\<rparr>)
       deviceId True)
      else None)"

text \<open>
  \<^verbatim>\<open>
  if (totalSubmissions >= assignment.redundancy_count) {
    UPDATE compute_tasks SET status = 'completed' WHERE id = $1
    INSERT INTO task_results (task_id, consensus_hash, total_submissions,
                              matching_submissions, consensus_reached, verified_at)
         VALUES ($1, $2, $3, $4, $5, NOW())
  }
  \<close>
  The result is \<open>None\<close> when the store refuses the insertion: a count that does not fit
  its \<^verbatim>\<open>INTEGER\<close> column.
\<close>

definition finalize_task :: "nat \<Rightarrow> db \<Rightarrow> nat \<Rightarrow> result_group \<Rightarrow> nat \<Rightarrow> bool \<Rightarrow> db option" where
  "finalize_task now st task_id topResult totalSubmissions verified =
     (if int32 (int totalSubmissions) \<and> int32 (int (snd topResult))
      then Some (st\<lparr>compute_tasks := update_where (\<lambda>t. ct_id t = task_id)
           (\<lambda>t. t\<lparr>ct_status := ''completed''\<rparr>) (compute_tasks st),
        task_results := task_results st @
          [\<lparr>tr_task_id = task_id, tr_consensus_hash = fst topResult,
            tr_total_submissions = totalSubmissions,
            tr_matching_submissions = snd topResult,
            tr_consensus_reached = verified, tr_verified_at = now\<rparr>]\<rparr>)
      else None)"

text \<open>
  \<^verbatim>\<open>
  async processRegularResult(deviceId, taskUuid, result, resultHash, executionTimeMs) {
    try {
      BEGIN
      assignments = (the join above)
      if (assignments.length === 0) { COMMIT; return { success: false, error: 'Assignment not found' }; }
      const assignment = assignments[0];
      UPDATE task_assignments SET status = 'completed', result_hash = $1, result_data = $2,
             execution_time_ms = $3, completed_at = NOW() WHERE id = $4
        -- with [resultHash, JSON.stringify(result), executionTimeMs, assignment.id]
      allResults = (the grouping above, for assignment.task_id)
      let verified = false; let creditsAwarded = 0;
      if (allResults.length > 0) {
        const topResult = allResults[0];
        const totalSubmissions = allResults.reduce((sum, r) => sum + parseInt(r.count), 0);
        (verification, credit and finalization, above)
      }
      COMMIT
      return { success: true, verified, credits_awarded: creditsAwarded, result_hash: resultHash };
    } catch (error) { ROLLBACK; throw error; }
  }
  \<close>
  \<open>record_submission\<close> is the update that records the submission. The store refuses it
  (\<open>None\<close>) when the execution time does not fit \<^verbatim>\<open>execution_time_ms INTEGER\<close>, when
  the text of the result is not accepted by \<^verbatim>\<open>result_data JSONB\<close>, or when the hash
  does not fit \<^verbatim>\<open>result_hash VARCHAR(128)\<close>. When a statement is refused the call rolls
  back and throws: its outcome is \<open>Thrown\<close> with the store it was given.
\<close>

definition record_submission ::
  "platform \<Rightarrow> nat \<Rightarrow> db \<Rightarrow> task_assignment \<Rightarrow> json \<Rightarrow> string \<Rightarrow> int \<Rightarrow> db option" where
  "record_submission P now st assignment result resultHash executionTimeMs =
     (if int32 executionTimeMs \<and> \<not> holds_nul P result \<and> length resultHash \<le> 128
      then Some (st\<lparr>task_assignments := update_where (\<lambda>a. ta_id a = ta_id assignment)
          (\<lambda>a. a\<lparr>ta_status := ''completed'', ta_result_hash := Some resultHash,
                 ta_result_data := Some (stringify P result),
                 ta_execution_time_ms := Some executionTimeMs,
                 ta_completed_at := Some now\<rparr>)
          (task_assignments st)\<rparr>)
      else None)"

definition processRegularResult ::
  "platform \<Rightarrow> row_order \<Rightarrow> nat \<Rightarrow> db \<Rightarrow> string \<Rightarrow> string \<Rightarrow> json \<Rightarrow> string \<Rightarrow> int
     \<Rightarrow> response \<times> db" where
  "processRegularResult P ord now st deviceId taskUuid result resultHash executionTimeMs =
     (case select_assignments st taskUuid deviceId of
        [] \<Rightarrow> (Failure ''Assignment not found'', st)
      | (assignment, ct, u) # _ \<Rightarrow>
          (case record_submission P now st assignment result resultHash executionTimeMs of
             None \<Rightarrow> (Thrown, st)
           | Some st1 \<Rightarrow>
               (case all_results ord st1 (ta_task_id assignment) of
                  [] \<Rightarrow> (Submission False 0 resultHash, st1)
                | topResult # others \<Rightarrow>
                    let allResults = topResult # others;
                        totalSubmissions = foldl (\<lambda>sum r. sum + snd r) 0 allResults;
                        verified = is_verified topResult resultHash
                                     (ct_expected_output_hash ct) (ct_redundancy_count ct);
                        creditsAwarded = (if verified then ct_reward_credits ct else 0)
                    in case (if verified
                             then award_credits now st1 assignment creditsAwarded deviceId
                             else Some st1) of
                         None \<Rightarrow> (Thrown, st)
                       | Some st2 \<Rightarrow>
                           (case (if int totalSubmissions \<ge> ct_redundancy_count ct
                                  then finalize_task now st2 (ta_task_id assignment) topResult
                                         totalSubmissions verified
                                  else Some st2) of
                              None \<Rightarrow> (Thrown, st)
                            | Some st3 \<Rightarrow>
                                (Submission verified creditsAwarded resultHash, st3)))))"

text \<open>
  \<^verbatim>\<open>
  async submitResult(deviceId, taskUuid, result, executionTimeMs) {
    const resultHash = crypto.hashResult(result);
    const isCanary = taskUuid.startsWith('canary_');
    if (isCanary) return await this.verifyCanaryResult(deviceId, taskUuid, resultHash);
    return await this.processRegularResult(deviceId, taskUuid, result, resultHash, executionTimeMs);
  }
  \<close>
\<close>

definition submitResult ::
  "platform \<Rightarrow> row_order \<Rightarrow> nat \<Rightarrow> db \<Rightarrow> string \<Rightarrow> string \<Rightarrow> json \<Rightarrow> int \<Rightarrow> response \<times> db" where
  "submitResult P ord now st deviceId taskUuid result executionTimeMs =
     (let resultHash = hashResult P result;
          isCanary = (take 7 taskUuid = ''canary_'')
      in if isCanary then verifyCanaryResult now st deviceId taskUuid resultHash
         else processRegularResult P ord now st deviceId taskUuid result resultHash
                executionTimeMs)"

section \<open>What the specification says of a submission\<close>

text \<open>The verified flag of an answer.\<close>

fun verified_flag :: "response \<Rightarrow> bool" where
  "verified_flag (Submission verified credits h) = verified"
| "verified_flag (CanaryVerdict verified credits) = verified"
| "verified_flag (Failure e) = False"
| "verified_flag Thrown = False"

text \<open>
  Among the hashes \<open>hs\<close> of the completed submissions of a task, the hash \<open>h\<close> is
  most frequent when no hash occurs more often, and the sole most frequent one when
  every other hash occurs less often. It has the quorum when it occurs at least
  \<open>\<lceil>redundancy_count / 2\<rceil>\<close> times.
\<close>

definition most_frequent :: "'a list \<Rightarrow> 'a \<Rightarrow> bool" where
  "most_frequent hs h = list_all (\<lambda>h'. count_list hs h' \<le> count_list hs h) hs"

definition sole_most_frequent :: "'a list \<Rightarrow> 'a \<Rightarrow> bool" where
  "sole_most_frequent hs h =
     (h \<in> set hs \<and> list_all (\<lambda>h'. h' = h \<or> count_list hs h' < count_list hs h) hs)"

definition quorum :: "'a list \<Rightarrow> 'a \<Rightarrow> int \<Rightarrow> bool" where
  "quorum hs h redundancy_count =
     (int (count_list hs h) \<ge> \<lceil>(of_int redundancy_count :: rat) / 2\<rceil>)"

text \<open>
  The store returns the group of the hash \<open>h\<close> first: it is the first row of the
  grouping query under the row order \<open>ord\<close>.
\<close>

definition returned_first :: "row_order \<Rightarrow> string option list \<Rightarrow> string option \<Rightarrow> bool" where
  "returned_first ord hs h = (case ord (group_counts hs) of [] \<Rightarrow> False | g # _ \<Rightarrow> fst g = h)"

section \<open>The submit route (src/api/routes.js) and the execution-time check\<close>

text \<open>
  Reading the property \<open>key\<close> of a value of the request body, for the keys that the
  server reads (\<^verbatim>\<open>task_type\<close>, \<^verbatim>\<open>difficulty\<close>, \<^verbatim>\<open>webgpu_supported\<close>): an object
  gives its own property, every other value but null gives \<^verbatim>\<open>undefined\<close> (\<open>None\<close>).
  Reading a property of null throws; the callers treat null before they call \<open>js_prop\<close>.
\<close>

definition js_prop :: "json \<Rightarrow> string \<Rightarrow> json option" where
  "js_prop v key = (case v of JObj kvs \<Rightarrow> obj_get kvs key | _ \<Rightarrow> None)"

fun truthy :: "json \<Rightarrow> bool" where
  "truthy JNull = False"
| "truthy (JBool b) = b"
| "truthy (JNum n) = (n \<noteq> 0)"
| "truthy (JStr s) = (s \<noteq> [])"
| "truthy (JArr xs) = True"
| "truthy (JObj kvs) = True"

text \<open>\<^verbatim>\<open>v.key || dflt\<close>\<close>

definition prop_or :: "json \<Rightarrow> string \<Rightarrow> json \<Rightarrow> json" where
  "prop_or v key dflt =
     (case js_prop v key of
        Some w \<Rightarrow> if truthy w then w else dflt
      | None \<Rightarrow> dflt)"

text \<open>
  The number that a value converts to in an arithmetic expression. An array or an object
  is first converted to a primitive value: its \<^verbatim>\<open>valueOf\<close> gives none, so the
  conversion goes on with \<^verbatim>\<open>toString\<close> as \<open>String_of\<close> does, and throws a
  \<^verbatim>\<open>TypeError\<close> (\<open>None\<close>) when that does.
\<close>

fun to_number :: "platform \<Rightarrow> json \<Rightarrow> jsnum option" where
  "to_number P JNull = Some (Fin 0)"
| "to_number P (JBool b) = Some (Fin (if b then 1 else 0))"
| "to_number P (JNum n) = Some (Fin n)"
| "to_number P (JStr s) = Some (string_to_number P s)"
| "to_number P v = map_option (string_to_number P) (String_of P v)"

text \<open>\<^verbatim>\<open>c * x\<close> for a finite constant \<open>c\<close>.\<close>

fun times_num :: "platform \<Rightarrow> rat \<Rightarrow> jsnum \<Rightarrow> jsnum" where
  "times_num P c (Fin x) = product P c x"
| "times_num P c PosInf = (if c > 0 then PosInf else if c < 0 then NegInf else NaN)"
| "times_num P c NegInf = (if c > 0 then NegInf else if c < 0 then PosInf else NaN)"
| "times_num P c NaN = NaN"

text \<open>\<^verbatim>\<open>x > y\<close> for a finite \<open>x\<close>; a comparison with not-a-number is false.\<close>

fun greater_num :: "rat \<Rightarrow> jsnum \<Rightarrow> bool" where
  "greater_num x (Fin y) = (x > y)"
| "greater_num x PosInf = False"
| "greater_num x NegInf = True"
| "greater_num x NaN = False"

text \<open>
  \<^verbatim>\<open>
  async verifyExecutionTime(taskType, executionTimeMs, difficulty) {
    const expectedRanges = {
      'matrix_mult': { min: 10, max: 5000 * difficulty },
      'hash_compute': { min: 5, max: 3000 * difficulty },
      'ml_inference': { min: 100, max: 15000 * difficulty }
    };
    const range = expectedRanges[taskType] || { min: 10, max: 30000 };
    if (executionTimeMs < range.min)
      return { valid: false, reason: 'Execution too fast - possible pre-computation' };
    if (executionTimeMs > range.max)
      return { valid: false, reason: 'Execution too slow - timeout risk' };
    return { valid: true };
  }
  \<close>
  The object literal multiplies the difficulty three times, which converts it to a
  number (\<open>difficulty\<close> below is that number). \<^verbatim>\<open>expectedRanges[taskType]\<close> then
  converts \<^verbatim>\<open>taskType\<close> to a string (\<open>key\<close> below) and looks it up among the three own
  keys first and then among the properties that every object inherits
  (\<open>object_prototype_keys\<close>): such a property is a truthy value with no \<^verbatim>\<open>min\<close> and no
  \<^verbatim>\<open>max\<close>, and both comparisons with \<^verbatim>\<open>undefined\<close> are false. When one of the two
  conversions throws, so does the call.
\<close>

datatype range_entry = TimeRange rat jsnum | Inherited

definition object_prototype_keys :: "string list" where
  "object_prototype_keys =
     [''constructor'', ''__defineGetter__'', ''__defineSetter__'', ''hasOwnProperty'',
      ''__lookupGetter__'', ''__lookupSetter__'', ''isPrototypeOf'',
      ''propertyIsEnumerable'', ''toString'', ''valueOf'', ''__proto__'',
      ''toLocaleString'']"

definition expectedRanges :: "platform \<Rightarrow> jsnum \<Rightarrow> (string \<times> range_entry) list" where
  "expectedRanges P difficulty =
     [(''matrix_mult'', TimeRange 10 (times_num P 5000 difficulty)),
      (''hash_compute'', TimeRange 5 (times_num P 3000 difficulty)),
      (''ml_inference'', TimeRange 100 (times_num P 15000 difficulty))]"

definition range_for :: "platform \<Rightarrow> string \<Rightarrow> jsnum \<Rightarrow> range_entry" where
  "range_for P key difficulty =
     (case map_of (expectedRanges P difficulty) key of
        Some r \<Rightarrow> r
      | None \<Rightarrow>
          if key \<in> set object_prototype_keys then Inherited
          else TimeRange 10 (Fin 30000))"

datatype time_check = Valid | Invalid string

datatype js_error = TypeError

definition verifyExecutionTime ::
  "platform \<Rightarrow> json \<Rightarrow> int \<Rightarrow> json \<Rightarrow> js_error + time_check" where
  "verifyExecutionTime P taskType executionTimeMs difficulty =
     (case to_number P difficulty of
        None \<Rightarrow> Inl TypeError
      | Some d \<Rightarrow>
          (case String_of P taskType of
             None \<Rightarrow> Inl TypeError
           | Some key \<Rightarrow>
               Inr (case range_for P key d of
                      Inherited \<Rightarrow> Valid
                    | TimeRange mn mx \<Rightarrow>
                        if of_int executionTimeMs < mn
                        then Invalid ''Execution too fast - possible pre-computation''
                        else if greater_num (of_int executionTimeMs) mx
                        then Invalid ''Execution too slow - timeout risk''
                        else Valid)))"

text \<open>
  \<^verbatim>\<open>
  router.post('/compute/task/submit', async (req, res) => {
    try {
      const { deviceId, taskUuid, result, executionTimeMs } = req.body;
      if (!deviceId || !taskUuid || result === undefined)
        return res.status(400).json({ success: false, error: 'Missing required fields' });
      const timeCheck = await verifier.verifyExecutionTime(
        result.task_type || 'unknown', executionTimeMs, result.difficulty || 1);
      if (!timeCheck.valid)
        return res.status(400).json({ success: false, error: timeCheck.reason });
      const submission = await taskQueue.submitResult(deviceId, taskUuid, result, executionTimeMs);
      res.json(submission);
    } catch (error) {
      res.status(500).json({ success: false, error: 'Failed to submit result' });
    }
  });
  \<close>
  The identifiers are strings and the execution time is an integer number of
  milliseconds (the column that stores it is \<^verbatim>\<open>INTEGER\<close>); \<open>result\<close> is any value, or
  absent (\<open>None\<close>). With a null result, \<^verbatim>\<open>result.task_type\<close> throws and the handler
  answers 500, as it does when the time check or \<open>submitResult\<close> throws.
\<close>

datatype http_response = Status200 response | Status400 string | Status500 string

definition submit_route ::
  "platform \<Rightarrow> row_order \<Rightarrow> nat \<Rightarrow> db \<Rightarrow> string \<Rightarrow> string \<Rightarrow> json option \<Rightarrow> int
     \<Rightarrow> http_response \<times> db" where
  "submit_route P ord now st deviceId taskUuid result executionTimeMs =
     (case result of
        None \<Rightarrow> (Status400 ''Missing required fields'', st)
      | Some r \<Rightarrow>
          if deviceId = [] \<or> taskUuid = [] then (Status400 ''Missing required fields'', st)
          else if r = JNull then (Status500 ''Failed to submit result'', st)
          else
            (case verifyExecutionTime P (prop_or r ''task_type'' (JStr ''unknown''))
                    executionTimeMs (prop_or r ''difficulty'' (JNum 1)) of
               Inl error \<Rightarrow> (Status500 ''Failed to submit result'', st)
             | Inr (Invalid reason) \<Rightarrow> (Status400 reason, st)
             | Inr Valid \<Rightarrow>
                 (case submitResult P ord now st deviceId taskUuid r executionTimeMs of
                    (submission, st') \<Rightarrow>
                      (case submission of
                         Thrown \<Rightarrow> (Status500 ''Failed to submit result'', st')
                       | _ \<Rightarrow> (Status200 submission, st')))))"

section \<open>Dispatch (src/queue/taskQueue.js)\<close>

text \<open>
  The text that the database driver sends for a query parameter: null and
  \<^verbatim>\<open>undefined\<close> are \<^verbatim>\<open>NULL\<close>, a string is itself, an object is its JSON text.
  A comparison \<^verbatim>\<open>column = $n\<close> with \<^verbatim>\<open>NULL\<close> on either side selects no row.
\<close>

definition sql_text :: "platform \<Rightarrow> json option \<Rightarrow> string option" where
  "sql_text P v =
     (case v of
        None \<Rightarrow> None
      | Some JNull \<Rightarrow> None
      | Some (JStr s) \<Rightarrow> Some s
      | Some (JArr xs) \<Rightarrow> Some (array_literal P xs)
      | Some (JObj kvs) \<Rightarrow> Some (stringify P (JObj kvs))
      | Some w \<Rightarrow> String_of P w)"

definition sql_eq :: "string option \<Rightarrow> string option \<Rightarrow> bool" where
  "sql_eq a b = (case (a, b) of (Some x, Some y) \<Rightarrow> x = y | _ \<Rightarrow> False)"

text \<open>\<^verbatim>\<open>capabilities?.webgpu_supported\<close>, read as a condition.\<close>

definition webgpu_supported :: "json option \<Rightarrow> bool" where
  "webgpu_supported capabilities =
     (case capabilities of
        None \<Rightarrow> False
      | Some JNull \<Rightarrow> False
      | Some c \<Rightarrow> (case js_prop c ''webgpu_supported'' of Some w \<Rightarrow> truthy w | None \<Rightarrow> False))"

datatype task_response =
    NoTask
  | TaskError string
  | TrustTooLow rat
  | RegularTask compute_task
  | CanaryTaskPayload canary_task

text \<open>
  \<^verbatim>\<open>
  async getRegularTask(deviceId, capabilities) {
    BEGIN
    const requiresGpu = capabilities?.webgpu_supported ? null : false;
    rows = SELECT ct.* FROM compute_tasks ct
            WHERE ct.status = 'pending' AND ct.expires_at > NOW()
              AND ($1::boolean IS NULL OR ct.requires_gpu = $1)
              AND ct.id NOT IN (SELECT task_id FROM task_assignments
                                 WHERE device_id = $2 AND status IN ('assigned', 'processing'))
              AND (SELECT COUNT(*) FROM task_assignments
                    WHERE task_id = ct.id
                      AND status IN ('assigned', 'processing', 'completed')) < ct.redundancy_count
            ORDER BY ct.priority DESC, ct.created_at ASC LIMIT 1 FOR UPDATE SKIP LOCKED
    if (rows.length === 0) { COMMIT; return null; }
    const task = rows[0];
    user = SELECT id FROM users WHERE device_id = $1
    if (user.rows.length === 0) { COMMIT; return { error: 'Device not registered' }; }
    INSERT INTO task_assignments (task_id, user_id, device_id, status)
         VALUES ($1, $2, $3, 'assigned')
    UPDATE compute_tasks SET status = 'assigned' WHERE id = $1
    COMMIT
    const signature = crypto.signTaskManifest(task, process.env.SESSION_SECRET);
    return { task_uuid: task.task_uuid, ..., signature, is_canary: false };
  }
  \<close>
  One request runs at a time, so no row is locked by another transaction. Tasks that tie
  on priority and creation time are taken in table order. The answer \<open>RegularTask task\<close>
  stands for the payload, which is made of columns of the selected row and its signature.
\<close>

definition eligible_task :: "nat \<Rightarrow> db \<Rightarrow> bool \<Rightarrow> string option \<Rightarrow> compute_task \<Rightarrow> bool" where
  "eligible_task now st any_gpu device ct =
     (ct_status ct = ''pending''
      \<and> (case ct_expires_at ct of None \<Rightarrow> False | Some e \<Rightarrow> e > now)
      \<and> (any_gpu \<or> ct_requires_gpu ct = False)
      \<and> ct_id ct \<notin> set (map ta_task_id
            (filter (\<lambda>a. sql_eq (Some (ta_device_id a)) device
                        \<and> ta_status a \<in> set [''assigned'', ''processing''])
               (task_assignments st)))
      \<and> int (length (filter (\<lambda>a. ta_task_id a = ct_id ct
                        \<and> ta_status a \<in> set [''assigned'', ''processing'', ''completed''])
               (task_assignments st))) < ct_redundancy_count ct)"

definition getRegularTask ::
  "platform \<Rightarrow> nat \<Rightarrow> db \<Rightarrow> json option \<Rightarrow> json option \<Rightarrow> task_response \<times> db" where
  "getRegularTask P now st deviceId capabilities =
     (let device = sql_text P deviceId;
          rows = sort_key (\<lambda>ct. (- ct_priority ct, ct_created_at ct))
                   (filter (eligible_task now st (webgpu_supported capabilities) device)
                      (compute_tasks st))
      in case rows of
           [] \<Rightarrow> (NoTask, st)
         | task # _ \<Rightarrow>
             (case filter (\<lambda>u. sql_eq (u_device_id u) device) (users st) of
                [] \<Rightarrow> (TaskError ''Device not registered'', st)
              | user # _ \<Rightarrow>
                  (RegularTask task,
                   st\<lparr>task_assignments := task_assignments st @
                        [\<lparr>ta_id = task_assignments_seq st, ta_task_id = ct_id task,
                          ta_user_id = u_id user,
                          ta_device_id = (case device of Some d \<Rightarrow> d | None \<Rightarrow> []),
                          ta_status = ''assigned'', ta_result_hash = None,
                          ta_result_data = None, ta_execution_time_ms = None,
                          ta_completed_at = None, ta_verified = False,
                          ta_credits_awarded = 0\<rparr>],
                      task_assignments_seq := task_assignments_seq st + 1,
                      compute_tasks := update_where (\<lambda>t. ct_id t = ct_id task)
                        (\<lambda>t. t\<lparr>ct_status := ''assigned''\<rparr>) (compute_tasks st)\<rparr>)))"

text \<open>
  \<^verbatim>\<open>
  async getCanaryTask(capabilities) {
    const taskType = capabilities?.webgpu_supported
      ? (Math.random() > 0.5 ? 'matrix_mult' : 'hash_compute') : 'hash_compute';
    rows = SELECT * FROM canary_tasks WHERE task_type = $1 ORDER BY RANDOM() LIMIT 1
    if (rows.length === 0) return await this.getRegularTask(capabilities);
    const canary = rows[0];
    return { task_uuid: canary.task_uuid, ..., is_canary: true,
             _known_hash: canary.known_output_hash };
  }
  \<close>
  \<open>rnd\<close> is the value of \<^verbatim>\<open>Math.random()\<close> and \<open>pick\<close> chooses the row that
  \<^verbatim>\<open>ORDER BY RANDOM()\<close> puts first. The call \<^verbatim>\<open>this.getRegularTask(capabilities)\<close> has one
  argument: it binds \<^verbatim>\<open>deviceId\<close> to the capabilities and leaves \<^verbatim>\<open>capabilities\<close>
  undefined.
\<close>

definition getCanaryTask ::
  "platform \<Rightarrow> nat \<Rightarrow> db \<Rightarrow> json option \<Rightarrow> rat \<Rightarrow> nat \<Rightarrow> task_response \<times> db" where
  "getCanaryTask P now st capabilities rnd pick =
     (let taskType = (if webgpu_supported capabilities
                      then (if rnd > 1 / 2 then ''matrix_mult'' else ''hash_compute'')
                      else ''hash_compute'');
          rows = filter (\<lambda>c. cn_task_type c = taskType) (canary_tasks st)
      in if rows = [] then getRegularTask P now st capabilities None
         else (CanaryTaskPayload (rows ! (pick mod length rows)), st))"

text \<open>
  \<^verbatim>\<open>
  async getNextTask(deviceId, capabilities) {
    const trustScore = await this.getNodeTrustScore(deviceId);
    if (trustScore < config.MIN_TRUST_SCORE) return { error: 'Trust score too low', trustScore };
    const isCanary = Math.random() < config.CANARY_TASK_FREQUENCY;
    if (isCanary) return await this.getCanaryTask(capabilities);
    return await this.getRegularTask(deviceId, capabilities);
  }
  \<close>
  with \<^verbatim>\<open>MIN_TRUST_SCORE: 50\<close> and \<^verbatim>\<open>CANARY_TASK_FREQUENCY: 0.05\<close> (src/utils/config.js).
  \<open>rnd1\<close> is the value of \<^verbatim>\<open>Math.random()\<close> here, \<open>rnd2\<close> and \<open>pick\<close> are handed
  to \<open>getCanaryTask\<close>.
\<close>

definition MIN_TRUST_SCORE :: rat where
  "MIN_TRUST_SCORE = 50"

definition CANARY_TASK_FREQUENCY :: rat where
  "CANARY_TASK_FREQUENCY = 5 / 100"

definition getNextTask ::
  "platform \<Rightarrow> nat \<Rightarrow> db \<Rightarrow> string \<Rightarrow> json option \<Rightarrow> rat \<Rightarrow> rat \<Rightarrow> nat
     \<Rightarrow> task_response \<times> db" where
  "getNextTask P now st deviceId capabilities rnd1 rnd2 pick =
     (case getNodeTrustScore st deviceId of
        (trustScore, st1) \<Rightarrow>
          if trustScore < MIN_TRUST_SCORE then (TrustTooLow trustScore, st1)
          else if rnd1 < CANARY_TASK_FREQUENCY
          then getCanaryTask P now st1 capabilities rnd2 pick
          else getRegularTask P now st1 (Some (JStr deviceId)) capabilities)"

section \<open>Sequences of calls\<close>

text \<open>
  The operations that write trust records, as calls with their arguments and the clock
  reading at which they run; \<open>run_calls\<close> runs a sequence of them, each on the store
  that the one before left.
\<close>

datatype api_call =
    GetNodeTrustScore string
  | UpdateTrustScore nat string bool
  | SubmitResult nat string string json int
  | RecordCanaryResult nat string bool

fun apply_call :: "platform \<Rightarrow> row_order \<Rightarrow> db \<Rightarrow> api_call \<Rightarrow> db" where
  "apply_call P ord st (GetNodeTrustScore deviceId) = snd (getNodeTrustScore st deviceId)"
| "apply_call P ord st (UpdateTrustScore now deviceId success) =
     updateTrustScore now st deviceId success"
| "apply_call P ord st (SubmitResult now deviceId taskUuid result executionTimeMs) =
     snd (submitResult P ord now st deviceId taskUuid result executionTimeMs)"
| "apply_call P ord st (RecordCanaryResult now deviceId passed) =
     recordCanaryResult now st deviceId passed"

definition run_calls :: "platform \<Rightarrow> row_order \<Rightarrow> db \<Rightarrow> api_call list \<Rightarrow> db" where
  "run_calls P ord st calls = foldl (apply_call P ord) st calls"

text \<open>Every stored trust score lies between 0 and 100.\<close>

definition trust_bounded :: "db \<Rightarrow> bool" where
  "trust_bounded st =
     list_all (\<lambda>r. 0 \<le> nt_trust_score r \<and> nt_trust_score r \<le> 100) (node_trust_rows st)"






text \<open>The trust record of a node, when the table holds exactly one for it.\<close>

definition trust_record :: "db \<Rightarrow> string \<Rightarrow> node_trust option" where
  "trust_record st deviceId =
     (case filter (\<lambda>r. nt_device_id r = deviceId) (node_trust_rows st) of
        [r] \<Rightarrow> Some r
      | _ \<Rightarrow> None)"

section \<open>Concrete platform and stores\<close>

text \<open>
  A platform on which the model can be run: the digest is an injective stand-in for
  SHA-256, a number is printed in decimal when it is an integer (as a fraction
  otherwise), a string is quoted without escapes, no string converts to a number, a
  product is exact and an array parameter is sent as the empty text.
\<close>

function nat_digits :: "nat \<Rightarrow> string" where
  "nat_digits n =
     (if n < 10 then [char_of (48 + n)]
      else nat_digits (n div 10) @ [char_of (48 + n mod 10)])"
  by pat_completeness auto
termination
  by (relation "measure id") auto

definition test_platform :: platform where
  "test_platform =
     \<lparr>digest = (\<lambda>s. ''sha256:'' @ s),
      number_to_string = (\<lambda>n. case quotient_of n of
         (a, b) \<Rightarrow> (if a < 0 then ''-'' else []) @ nat_digits (nat \<bar>a\<bar>)
                   @ (if b = 1 then [] else ''/'' @ nat_digits (nat b))),
      quote_json = (\<lambda>s. CHR 0x22 # s @ [CHR 0x22]),
      string_to_number = (\<lambda>s. NaN),
      product = (\<lambda>a b. Fin (a * b)),
      array_literal = (\<lambda>xs. [])\<rparr>"

definition empty_db :: db where
  "empty_db =
     \<lparr>users = [], compute_tasks = [], task_assignments = [], task_results = [],
      earnings = [], node_trust_rows = [], canary_tasks = [], task_assignments_seq = 1\<rparr>"





text \<open>
  A store with three registered nodes and one task, given by its expected output hash,
  its redundancy count and the rows of its assignments. \<open>submit\<close> is a submission of
  the string \<open>answer\<close> for that task, and \<open>hash_of answer\<close> its hash.
\<close>

definition node_a :: string where
  "node_a = ''node-aaaaaaaaaaaaaaaa''"

definition node_b :: string where
  "node_b = ''node-bbbbbbbbbbbbbbbb''"

definition node_c :: string where
  "node_c = ''node-cccccccccccccccc''"

definition sample_user :: "nat \<Rightarrow> string \<Rightarrow> user" where
  "sample_user i device =
     \<lparr>u_id = i, u_device_id = Some device, u_total_compute_credits = 0,
      u_claimable_balance = 0, u_total_earned = 0\<rparr>"

definition sample_task :: "string \<Rightarrow> string option \<Rightarrow> int \<Rightarrow> string \<Rightarrow> compute_task" where
  "sample_task task_type expected redundancy status =
     \<lparr>ct_id = 7, ct_task_uuid = ''task_7'', ct_task_type = task_type, ct_priority = 5,
      ct_expected_output_hash = expected, ct_reward_credits = 1 / 2,
      ct_requires_gpu = False, ct_redundancy_count = redundancy, ct_status = status,
      ct_created_at = 0, ct_expires_at = Some 3600\<rparr>"

definition assignment_row :: "nat \<Rightarrow> string \<Rightarrow> string \<Rightarrow> string option \<Rightarrow> task_assignment" where
  "assignment_row i device status h =
     \<lparr>ta_id = i, ta_task_id = 7, ta_user_id = i, ta_device_id = device, ta_status = status,
      ta_result_hash = h, ta_result_data = None, ta_execution_time_ms = None,
      ta_completed_at = None, ta_verified = False, ta_credits_awarded = 0\<rparr>"

definition sample_db :: "compute_task \<Rightarrow> task_assignment list \<Rightarrow> db" where
  "sample_db task rows =
     \<lparr>users = [sample_user 11 node_a, sample_user 12 node_b, sample_user 13 node_c],
      compute_tasks = [task], task_assignments = rows, task_results = [], earnings = [],
      node_trust_rows = [new_node_trust node_a, new_node_trust node_b, new_node_trust node_c],
      canary_tasks = [], task_assignments_seq = 14\<rparr>"

definition hash_of :: "string \<Rightarrow> string" where
  "hash_of answer = hashResult test_platform (JStr answer)"

definition submit :: "row_order \<Rightarrow> nat \<Rightarrow> db \<Rightarrow> string \<Rightarrow> string \<Rightarrow> response \<times> db" where
  "submit ord now st node answer =
     submitResult test_platform ord now st node ''task_7'' (JStr answer) 200"

text \<open>
  Stores for the consensus rules. In \<open>tie_db\<close> the task has no expected output hash
  and redundancy 2, node A has submitted and node B has not; in \<open>expected_tie_db\<close> the
  task has an expected output hash and node A has submitted another hash. In
  \<open>credit_db\<close> one node holds the task; \<open>credited_once\<close> and \<open>credited_twice\<close> are
  the stores after it has submitted the expected result once and twice. In \<open>final_db\<close>
  two of three nodes have submitted; \<open>finalized_once\<close> and \<open>finalized_twice\<close> are the
  stores after the third node has submitted once and twice. In \<open>majority_db\<close> nodes A
  and C have submitted and node B has not.
\<close>

definition tie_db :: db where
  "tie_db = sample_db (sample_task ''ml_inference'' None 2 ''assigned'')
       [assignment_row 11 node_a ''completed'' (Some (hash_of ''A'')),
        assignment_row 12 node_b ''assigned'' None]"

definition expected_tie_db :: db where
  "expected_tie_db = sample_db (sample_task ''matrix_mult'' (Some (hash_of ''H'')) 3 ''assigned'')
       [assignment_row 11 node_a ''completed'' (Some (hash_of ''X'')),
        assignment_row 12 node_b ''assigned'' None,
        assignment_row 13 node_c ''assigned'' None]"

definition credit_db :: db where
  "credit_db = sample_db (sample_task ''matrix_mult'' (Some (hash_of ''H'')) 3 ''assigned'')
       [assignment_row 11 node_a ''assigned'' None]"

definition credited_once :: db where
  "credited_once = snd (submit count_desc 10 credit_db node_a ''H'')"

definition credited_twice :: db where
  "credited_twice = snd (submit count_desc 20 credited_once node_a ''H'')"

definition final_db :: db where
  "final_db = sample_db (sample_task ''hash_compute'' (Some (hash_of ''H'')) 3 ''assigned'')
       [assignment_row 11 node_a ''completed'' (Some (hash_of ''H'')),
        assignment_row 12 node_b ''completed'' (Some (hash_of ''H'')),
        assignment_row 13 node_c ''assigned'' None]"

definition finalized_once :: db where
  "finalized_once = snd (submit count_desc 10 final_db node_c ''H'')"

definition finalized_twice :: db where
  "finalized_twice = snd (submit count_desc 20 finalized_once node_c ''H'')"

definition majority_db :: "string \<Rightarrow> db" where
  "majority_db third = sample_db (sample_task ''ml_inference'' None 3 ''assigned'')
       [assignment_row 11 node_a ''completed'' (Some (hash_of ''A'')),
        assignment_row 12 node_b ''assigned'' None,
        assignment_row 13 node_c ''completed'' (Some (hash_of third))]"

text \<open>
  A store in which node A holds an inference task, and results for it: one that names
  no task type, one that names the type of the task, one whose task type is an object
  with a property \<^verbatim>\<open>toString\<close>, and one whose task type is the name of a property that
  every object inherits. A store with one pending task, no assignment and no canary
  task, and the capabilities of a node without a GPU.
\<close>

definition inference_db :: db where
  "inference_db = sample_db (sample_task ''ml_inference'' None 3 ''assigned'')
       [assignment_row 11 node_a ''assigned'' None]"

definition fast_result :: json where
  "fast_result = JObj [(''label'', JStr ''cat''), (''confidence'', JStr ''high'')]"

definition typed_result :: json where
  "typed_result = JObj [(''task_type'', JStr ''ml_inference''), (''label'', JStr ''cat'')]"

definition unprintable_result :: json where
  "unprintable_result = JObj [(''task_type'', JObj [(''toString'', JStr ''x'')])]"

definition inherited_result :: json where
  "inherited_result = JObj [(''task_type'', JStr ''constructor''), (''label'', JStr ''cat'')]"

definition dispatch_db :: db where
  "dispatch_db = sample_db (sample_task ''hash_compute'' None 3 ''pending'') []"

definition no_gpu :: "json option" where
  "no_gpu = Some (JObj [(''webgpu_supported'', JBool False)])"

text \<open>A store in which both nodes have submitted, with different hashes, at redundancy 2.\<close>

definition tied_db :: db where
  "tied_db = sample_db (sample_task ''ml_inference'' None 2 ''assigned'')
       [assignment_row 11 node_a ''completed'' (Some (hash_of ''A'')),
        assignment_row 12 node_b ''completed'' (Some (hash_of ''B''))]"

section \<open>Properties\<close>

subsection \<open>Canonical hashing\<close>

lemma obj_get_map: "obj_get (map (map_prod id f) obj) key = map_option f (obj_get obj key)"
  by (induction obj) (auto simp: obj_get_def)

text \<open>The equation of \<open>sortObject\<close> on an object, in the shape of the source.\<close>

lemma sortObject_JObj:
  "sortObject (JObj kvs) =
     JObj (foldl (\<lambda>sorted key. case obj_get kvs key of
                                   Some v \<Rightarrow> obj_set sorted key (sortObject v)
                                 | None \<Rightarrow> sorted)
             [] (sort (obj_keys kvs)))"
  by (auto simp: sort_props_def obj_get_map obj_keys_def intro!: foldl_cong split: option.splits)

text \<open>
  The sorted object depends on the set of keys and on the value of each key only.
\<close>

lemma sort_props_cong:
  assumes "mset (obj_keys xs) = mset (obj_keys ys)"
    and "\<And>k. k \<in> set (obj_keys xs) \<Longrightarrow> obj_get xs k = obj_get ys k"
  shows "sort_props xs = sort_props ys"
proof -
  have "sort (obj_keys xs) = sort (obj_keys ys)"
    using assms(1) by (metis properties_for_sort sorted_sort mset_sort)
  moreover have "set (sort (obj_keys ys)) = set (obj_keys xs)"
    using assms(1) by (metis mset_eq_setD set_sort)
  ultimately show ?thesis
    unfolding sort_props_def using assms(2)
    by (auto intro!: foldl_cong)
qed

lemma equiv_sortObject: "json_equiv a b \<Longrightarrow> sortObject a = sortObject b"
proof (induction rule: json_equiv.induct)
  case (equiv_arr xs ys)
  then have "map sortObject xs = map sortObject ys"
    by (induction rule: list_all2_induct) auto
  then show ?case by simp
next
  case (equiv_obj xs ys' ys)
  let ?f = "map (map_prod id sortObject)"
  note pw = equiv_obj.IH
  note pm = equiv_obj.hyps(1)
  note dx = equiv_obj.hyps(2)
  from pw have same: "?f xs = ?f ys'"
    by (induction rule: list_all2_induct) (auto simp: prod_eq_iff)
  from pw have keys: "map fst xs = map fst ys'"
    by (induction rule: list_all2_induct) auto
  have perm: "mset (?f ys') = mset (?f ys)"
    using pm by simp
  have kf: "\<And>zs. map fst (?f zs) = map fst zs"
    by (simp add: comp_def)
  have k1: "mset (obj_keys (?f xs)) = mset (obj_keys (?f ys))"
    unfolding obj_keys_def kf keys using pm by simp
  have d1: "distinct (map fst (?f ys'))"
    unfolding kf using dx keys by simp
  have "mset (map fst (?f ys')) = mset (map fst (?f ys))"
    unfolding kf using pm by simp
  then have d2: "distinct (map fst (?f ys))"
    using d1 mset_eq_imp_distinct_iff by blast
  have "set (?f ys') = set (?f ys)"
    using perm by (rule mset_eq_setD)
  then have "map_of (?f ys') = map_of (?f ys)"
    using d1 d2 by (simp add: map_of_inject_set)
  then have "sort_props (?f xs) = sort_props (?f ys)"
    using k1 same by (intro sort_props_cong) (simp_all add: obj_get_def)
  then show ?case by simp
qed simp_all

lemma example_key_order:
  "json_equiv (JObj [(''a'', JNum 1), (''b'', JNum 2)]) (JObj [(''b'', JNum 2), (''a'', JNum 1)])"
  by (rule equiv_obj [where ys' = "[(''a'', JNum 1), (''b'', JNum 2)]"]) (simp_all add: equiv_num)

lemma example_nested_key_order:
  "json_equiv
     (JObj [(''rows'', JArr [JObj [(''x'', JNum 1), (''y'', JStr ''a'')], JNull]), (''n'', JNum 2)])
     (JObj [(''n'', JNum 2), (''rows'', JArr [JObj [(''y'', JStr ''a''), (''x'', JNum 1)], JNull])])"
proof -
  have inner: "json_equiv (JObj [(''x'', JNum 1), (''y'', JStr ''a'')])
                 (JObj [(''y'', JStr ''a''), (''x'', JNum 1)])"
    by (rule equiv_obj [where ys' = "[(''x'', JNum 1), (''y'', JStr ''a'')]"])
       (simp_all add: equiv_num equiv_str)
  have arr: "json_equiv (JArr [JObj [(''x'', JNum 1), (''y'', JStr ''a'')], JNull])
               (JArr [JObj [(''y'', JStr ''a''), (''x'', JNum 1)], JNull])"
    by (rule equiv_arr) (simp add: inner equiv_null)
  show ?thesis
    by (rule equiv_obj [where ys' = "[(''rows'', JArr [JObj [(''y'', JStr ''a''), (''x'', JNum 1)], JNull]), (''n'', JNum 2)]"])
       (simp_all add: arr equiv_num)
qed

text \<open>
  C5. Canonical result hashing is invariant under the order of keys: two values that
  are equal up to the order of the keys of their objects, at any depth (also inside
  arrays), have the same \<open>hashResult\<close>, whatever the digest function is.
\<close>

theorem hashResult_key_order_invariant:
  "json_equiv a b \<Longrightarrow> hashResult P a = hashResult P b"
proof -
  assume e: "json_equiv a b"
  then have "sortObject a = sortObject b"
    by (rule equiv_sortObject)
  moreover from e have "typeof_object a = typeof_object b"
    by (cases rule: json_equiv.cases) simp_all
  moreover from e have "\<not> typeof_object a \<Longrightarrow> a = b"
    by (cases rule: json_equiv.cases) simp_all
  ultimately show ?thesis
    by (auto simp: hashResult_def)
qed

text \<open>
  The instance of the specification, \<^verbatim>\<open>{a:1,b:2}\<close> and \<^verbatim>\<open>{b:2,a:1}\<close>, and one with
  an object inside an array.
\<close>

theorem hashResult_key_order_invariant_witness:
  "json_equiv (JObj [(''a'', JNum 1), (''b'', JNum 2)]) (JObj [(''b'', JNum 2), (''a'', JNum 1)])
   \<and> hashResult test_platform (JObj [(''a'', JNum 1), (''b'', JNum 2)])
     = hashResult test_platform (JObj [(''b'', JNum 2), (''a'', JNum 1)])
   \<and> hashResult test_platform
       (JObj [(''rows'', JArr [JObj [(''x'', JNum 1), (''y'', JStr ''a'')], JNull]), (''n'', JNum 2)])
     = hashResult test_platform
       (JObj [(''n'', JNum 2), (''rows'', JArr [JObj [(''y'', JStr ''a''), (''x'', JNum 1)], JNull])])"
  using hashResult_key_order_invariant [OF example_key_order, of test_platform]
    hashResult_key_order_invariant [OF example_nested_key_order, of test_platform]
    example_key_order
  by simp

subsection \<open>A number and its text\<close>

text \<open>The conversion that \<open>hashResult\<close> applies does not throw.\<close>

lemma String_of_primitive: "\<not> typeof_object v \<Longrightarrow> String_of P v \<noteq> None"
  by (cases v) simp_all

lemma completed_hashes_result_data:
  "completed_hashes (st\<lparr>task_assignments := update_where (\<lambda>x. ta_id x = i)
        (\<lambda>x. x\<lparr>ta_status := ''completed'', ta_result_hash := Some h,
               ta_result_data := Some d1,
               ta_execution_time_ms := Some ms, ta_completed_at := Some now\<rparr>)
        (task_assignments st)\<rparr>) tid =
   completed_hashes (st\<lparr>task_assignments := update_where (\<lambda>x. ta_id x = i)
        (\<lambda>x. x\<lparr>ta_status := ''completed'', ta_result_hash := Some h,
               ta_result_data := Some d2,
               ta_execution_time_ms := Some ms, ta_completed_at := Some now\<rparr>)
        (task_assignments st)\<rparr>) tid"
proof -
  have "map ta_result_hash (filter (\<lambda>x. ta_task_id x = tid \<and> ta_status x = ''completed'')
           (update_where (\<lambda>x. ta_id x = i)
             (\<lambda>x. x\<lparr>ta_status := ''completed'', ta_result_hash := Some h,
                 ta_result_data := Some d1,
                 ta_execution_time_ms := Some ms, ta_completed_at := Some now\<rparr>) rows)) =
         map ta_result_hash (filter (\<lambda>x. ta_task_id x = tid \<and> ta_status x = ''completed'')
           (update_where (\<lambda>x. ta_id x = i)
             (\<lambda>x. x\<lparr>ta_status := ''completed'', ta_result_hash := Some h,
                 ta_result_data := Some d2,
                 ta_execution_time_ms := Some ms, ta_completed_at := Some now\<rparr>) rows))" for rows
    by (induction rows) (auto simp: update_where_def)
  then show ?thesis
    by (simp add: completed_hashes_def)
qed

text \<open>
  The answer to a submission depends on the result through its hash, and through
  whether the store accepts its text.
\<close>

lemma processRegularResult_response:
  "holds_nul P r1 = holds_nul P r2 \<Longrightarrow>
   fst (processRegularResult P ord now st d u r1 h ms) =
   fst (processRegularResult P ord now st d u r2 h ms)"
  unfolding processRegularResult_def all_results_def record_submission_def
    award_credits_def finalize_task_def
  by (simp add: Let_def completed_hashes_result_data [where ?d1.0 = "stringify P r1" and ?d2.0 = "stringify P r2"]
        split: list.splits prod.splits)

text \<open>
  C10. Canonical hashing does not tell a number from its text: for every number \<open>n\<close>,
  \<open>hashResult\<close> of \<open>n\<close> is \<open>hashResult\<close> of the string \<^verbatim>\<open>String(n)\<close>, and a submission
  of the string is answered (verified flag, credits, hash) as a submission of the number
  is, on the same store.
\<close>

theorem hashResult_number_as_string:
  "hashResult P (JNum n) = hashResult P (JStr (number_to_string P n)) \<and>
   fst (submitResult P ord now st deviceId taskUuid (JNum n) executionTimeMs) =
   fst (submitResult P ord now st deviceId taskUuid (JStr (number_to_string P n))
          executionTimeMs)"
proof -
  have h: "hashResult P (JNum n) = hashResult P (JStr (number_to_string P n))"
    by (simp add: hashResult_def)
  have n: "holds_nul P (JNum n) = holds_nul P (JStr (number_to_string P n))"
    by simp
  show ?thesis
    using h processRegularResult_response [OF n, of ord now st deviceId taskUuid]
    by (simp add: submitResult_def Let_def)
qed

subsection \<open>Trust scores stay within bounds\<close>

lemma filter_update_where:
  "(\<And>r. c r \<Longrightarrow> c (f r)) \<Longrightarrow> filter c (update_where c f rows) = map f (filter c rows)"
  by (induction rows) (auto simp: update_where_def)

lemma list_all_update_where:
  "list_all Q rows \<Longrightarrow> (\<And>r. Q r \<Longrightarrow> Q (f r)) \<Longrightarrow> list_all Q (update_where c f rows)"
  by (induction rows) (auto simp: update_where_def)

lemma trust_bounded_updateTrustScore:
  "trust_bounded st \<Longrightarrow> trust_bounded (updateTrustScore now st d s)"
  by (auto simp: trust_bounded_def updateTrustScore_def intro!: list_all_update_where)

lemma trust_bounded_getNodeTrustScore:
  "trust_bounded st \<Longrightarrow> trust_bounded (snd (getNodeTrustScore st d))"
  by (auto simp: trust_bounded_def getNodeTrustScore_def new_node_trust_def split: list.splits)

lemma trust_bounded_banNode:
  "trust_bounded st \<Longrightarrow> trust_bounded (banNode now st d reason)"
  by (auto simp: trust_bounded_def banNode_def intro!: list_all_update_where)

lemma trust_bounded_recordCanaryResult:
  "trust_bounded st \<Longrightarrow> trust_bounded (recordCanaryResult now st d p)"
proof (cases p)
  case True
  assume "trust_bounded st"
  with True show ?thesis
    by (auto simp: trust_bounded_def recordCanaryResult_def intro!: list_all_update_where)
next
  case False
  assume b: "trust_bounded st"
  let ?st1 = "st\<lparr>node_trust_rows := update_where (\<lambda>r. nt_device_id r = d)
                    (\<lambda>r. r\<lparr>nt_trust_score := max 0 (nt_trust_score r - 15),
                           nt_canary_failures := nt_canary_failures r + 1,
                           nt_last_failure_at := Some now,
                           nt_updated_at := Some now\<rparr>)
                    (node_trust_rows st)\<rparr>"
  from b have b1: "trust_bounded ?st1"
    by (auto simp: trust_bounded_def intro!: list_all_update_where)
  then have "trust_bounded (banNode now ?st1 d ''Multiple canary verification failures'')"
    by (rule trust_bounded_banNode)
  with b1 False show ?thesis
    by (simp add: recordCanaryResult_def Let_def split: list.splits)
qed

lemma trust_bounded_verifyCanaryResult:
  "trust_bounded st \<Longrightarrow> trust_bounded (snd (verifyCanaryResult now st d u h))"
  unfolding verifyCanaryResult_def trust_bounded_def
  by (auto simp: Let_def split: list.splits intro!: list_all_update_where)

lemma trust_bounded_award_credits:
  "trust_bounded st \<Longrightarrow> award_credits now st a c d = Some st' \<Longrightarrow> trust_bounded st'"
proof -
  assume b: "trust_bounded st" and s: "award_credits now st a c d = Some st'"
  from s obtain s0 where s0: "st' = updateTrustScore now s0 d True"
    "node_trust_rows s0 = node_trust_rows st"
    by (auto simp: award_credits_def split: if_splits)
  from b s0(2) have "trust_bounded s0"
    by (simp add: trust_bounded_def)
  then show ?thesis
    unfolding s0(1) by (rule trust_bounded_updateTrustScore)
qed

lemma trust_bounded_record_submission:
  "trust_bounded st \<Longrightarrow> record_submission P now st a r h ms = Some st' \<Longrightarrow> trust_bounded st'"
  by (auto simp: trust_bounded_def record_submission_def split: if_splits)

lemma trust_bounded_finalize_task:
  "trust_bounded st \<Longrightarrow> finalize_task now st tid tp n v = Some st' \<Longrightarrow> trust_bounded st'"
  by (auto simp: trust_bounded_def finalize_task_def split: if_splits)

lemma trust_bounded_processRegularResult:
  assumes "trust_bounded st"
  shows "trust_bounded (snd (processRegularResult P ord now st d u r h ms))"
  unfolding processRegularResult_def
  by (auto simp: Let_def assms split: list.splits prod.splits option.splits if_splits
        dest: trust_bounded_record_submission [OF assms] trust_bounded_award_credits
          trust_bounded_finalize_task)

lemma trust_bounded_apply_call:
  "trust_bounded st \<Longrightarrow> trust_bounded (apply_call P ord st c)"
  by (cases c)
     (simp_all add: trust_bounded_getNodeTrustScore trust_bounded_updateTrustScore
        trust_bounded_recordCanaryResult submitResult_def Let_def
        trust_bounded_verifyCanaryResult trust_bounded_processRegularResult)

text \<open>
  C7. Trust-score bound: from a store in which every trust score is in \<open>[0, 100]\<close>,
  every sequence of the operations that write trust records (lazy creation at 100,
  regular success +0.5 and failure -5, canary pass and canary failure of the queue and
  of the verifier, with its ban) leaves every trust score in \<open>[0, 100]\<close>. The sequence is
  arbitrary, so the bound holds after each of its prefixes as well.
\<close>

theorem trust_score_bounds:
  "trust_bounded st \<Longrightarrow> trust_bounded (run_calls P ord st calls)"
  unfolding run_calls_def
  by (induction calls arbitrary: st) (simp_all add: trust_bounded_apply_call)

theorem trust_score_bounds_witness:
  "trust_bounded empty_db \<and>
   trust_bounded (run_calls test_platform count_desc empty_db
     [GetNodeTrustScore ''node'', UpdateTrustScore 1 ''node'' True,
      UpdateTrustScore 2 ''node'' False, RecordCanaryResult 3 ''node'' False])"
proof -
  have h: "trust_bounded empty_db"
    by (simp add: trust_bounded_def empty_db_def)
  show ?thesis
    using h trust_score_bounds [OF h] by simp
qed

subsection \<open>Canary failures and the ban\<close>





text \<open>What a statement that the store accepts writes.\<close>

lemma record_submission_Some:
  assumes "record_submission P now st a r h ms = Some st1"
  shows "node_trust_rows st1 = node_trust_rows st" "canary_tasks st1 = canary_tasks st"
    "users st1 = users st" "earnings st1 = earnings st" "task_results st1 = task_results st"
    "compute_tasks st1 = compute_tasks st"
  using assms by (auto simp: record_submission_def split: if_splits)

lemma award_credits_Some:
  assumes "award_credits now st a c d = Some st2"
  shows "node_trust_rows st2 = node_trust_rows (updateTrustScore now st d True)"
    "canary_tasks st2 = canary_tasks st"
    "users st2 = update_where (\<lambda>x. u_id x = ta_user_id a)
                    (\<lambda>x. x\<lparr>u_total_compute_credits := u_total_compute_credits x + c,
                           u_claimable_balance := u_claimable_balance x + c,
                           u_total_earned := u_total_earned x + c\<rparr>)
                    (users st)"
    "earnings st2 = earnings st @
       [\<lparr>e_user_id = ta_user_id a, e_earned_amount = c,
         e_earning_type = ''compute'', e_task_id = ta_task_id a\<rparr>]"
    "task_results st2 = task_results st" "compute_tasks st2 = compute_tasks st"
  using assms by (auto simp: award_credits_def updateTrustScore_def split: if_splits)

lemma finalize_task_Some:
  assumes "finalize_task now st tid tp n vf = Some st3"
  shows "node_trust_rows st3 = node_trust_rows st" "canary_tasks st3 = canary_tasks st"
    "users st3 = users st" "earnings st3 = earnings st"
    "task_assignments st3 = task_assignments st"
    "task_results st3 = task_results st @
          [\<lparr>tr_task_id = tid, tr_consensus_hash = fst tp, tr_total_submissions = n,
            tr_matching_submissions = snd tp, tr_consensus_reached = vf, tr_verified_at = now\<rparr>]"
    "compute_tasks st3 = update_where (\<lambda>t. ct_id t = tid)
           (\<lambda>t. t\<lparr>ct_status := ''completed''\<rparr>) (compute_tasks st)"
  using assms by (auto simp: finalize_task_def split: if_splits)












text \<open>
  The verifier's own \<open>recordCanaryResult\<close> escalates in the same way, with its own
  reason, and sets the score of a banned node to 0.
\<close>

lemma recordCanaryResult_failure:
  assumes "trust_record st deviceId = Some r"
  shows "\<exists>r'. trust_record (recordCanaryResult now st deviceId False) deviceId = Some r'
     \<and> nt_canary_failures r' = nt_canary_failures r + 1
     \<and> (nt_banned r' \<longleftrightarrow> nt_banned r \<or> nt_canary_failures r + 1 \<ge> 3)
     \<and> (nt_canary_failures r + 1 \<ge> 3 \<longrightarrow>
          nt_ban_reason r' = Some ''Multiple canary verification failures''
          \<and> nt_banned_at r' = Some now \<and> nt_trust_score r' = 0)"
proof -
  from assms have rows: "filter (\<lambda>x. nt_device_id x = deviceId) (node_trust_rows st) = [r]"
    by (auto simp: trust_record_def split: list.splits)
  show ?thesis
    by (simp add: recordCanaryResult_def banNode_def Let_def filter_update_where rows
          trust_record_def)
qed

subsection \<open>The grouped submissions of a task\<close>

lemma count_desc_valid: "valid_order count_desc"
  unfolding valid_order_def count_desc_def
proof (intro allI conjI)
  fix gs :: "result_group list"
  show "mset (sort_key (\<lambda>g. - int (snd g)) gs) = mset gs" by simp
  have "sorted (map (\<lambda>g. - int (snd g)) (sort_key (\<lambda>g. - int (snd g)) gs))"
    by (rule sorted_sort_key)
  then show "sorted_wrt (\<lambda>a b. snd b \<le> snd a) (sort_key (\<lambda>g. - int (snd g)) gs)"
    by (simp add: sorted_map)
qed

lemma count_desc_rev_valid: "valid_order count_desc_rev"
  unfolding valid_order_def count_desc_rev_def
proof (intro allI conjI)
  fix gs :: "result_group list"
  show "mset (rev (sort_key (\<lambda>g. int (snd g)) gs)) = mset gs" by simp
  have "sorted (map (\<lambda>g. int (snd g)) (sort_key (\<lambda>g. int (snd g)) gs))"
    by (rule sorted_sort_key)
  then have "sorted_wrt (\<lambda>a b. snd a \<le> snd b) (sort_key (\<lambda>g. int (snd g)) gs)"
    by (simp add: sorted_map)
  then show "sorted_wrt (\<lambda>a b. snd b \<le> snd a) (rev (sort_key (\<lambda>g. int (snd g)) gs))"
    by (simp add: sorted_wrt_rev)
qed

lemma set_group_counts: "set (group_counts hs) = (\<lambda>h. (h, count_list hs h)) ` set hs"
  by (simp add: group_counts_def)

lemma total_group_counts: "sum_list (map snd (group_counts hs)) = length hs"
proof -
  have "sum_list (map snd (group_counts hs)) = sum_list (map (count_list hs) (remdups hs))"
    by (simp add: group_counts_def comp_def)
  also have "\<dots> = sum (count_list hs) (set hs)"
    by (simp add: sum_list_distinct_conv_sum_set)
  also have "\<dots> = length hs"
    by (simp add: sum_count_set)
  finally show ?thesis .
qed

lemma foldl_count_sum: "foldl (\<lambda>sum r. sum + snd r) (n::nat) gs = n + sum_list (map snd gs)"
  by (induction gs arbitrary: n) simp_all

lemma total_valid_order:
  assumes "valid_order ord"
  shows "foldl (\<lambda>sum r. sum + snd r) 0 (ord (group_counts hs)) = length hs"
proof -
  have "mset (ord (group_counts hs)) = mset (group_counts hs)"
    using assms by (simp add: valid_order_def)
  then have "sum_list (map snd (ord (group_counts hs))) = sum_list (map snd (group_counts hs))"
    by (metis mset_map sum_mset_sum_list)
  then show ?thesis
    by (simp add: foldl_count_sum total_group_counts)
qed

text \<open>
  Whatever the order among groups of equal count, the first row has the highest count.
\<close>

lemma top_valid_order:
  assumes v: "valid_order ord" and ne: "hs \<noteq> []"
  shows "\<exists>h rest. ord (group_counts hs) = (h, count_list hs h) # rest \<and> h \<in> set hs
           \<and> (\<forall>h'. count_list hs h' \<le> count_list hs h)"
proof -
  let ?gs = "group_counts hs"
  from v have ms: "mset (ord ?gs) = mset ?gs"
    and sw: "sorted_wrt (\<lambda>a b. snd b \<le> snd a) (ord ?gs)"
    by (simp_all add: valid_order_def)
  from ms have st: "set (ord ?gs) = set ?gs"
    by (rule mset_eq_setD)
  from ne have "set ?gs \<noteq> {}"
    by (simp add: set_group_counts)
  with st obtain tp rest where o: "ord ?gs = tp # rest"
    by (cases "ord ?gs") auto
  with st have "tp \<in> set ?gs" by auto
  then obtain h where h: "tp = (h, count_list hs h)" "h \<in> set hs"
    by (auto simp: set_group_counts)
  have mx: "count_list hs h' \<le> count_list hs h" for h'
  proof (cases "h' \<in> set hs")
    case True
    then have "(h', count_list hs h') \<in> set (ord ?gs)"
      using st by (auto simp: set_group_counts)
    then show ?thesis
      using sw o h(1) by auto
  next
    case False
    then show ?thesis by (simp add: count_list_0_iff)
  qed
  from o h mx show ?thesis by blast
qed

lemma sel_member:
  "select_assignments st uuid dev = (a, ct, u) # rest \<Longrightarrow> a \<in> set (task_assignments st)"
proof -
  assume "select_assignments st uuid dev = (a, ct, u) # rest"
  then have "(a, ct, u) \<in> set (select_assignments st uuid dev)" by simp
  then show ?thesis
    by (auto simp: select_assignments_def split: if_splits)
qed

lemma hash_recorded:
  "a \<in> set (task_assignments st) \<Longrightarrow> record_submission P now st a r h ms = Some st1 \<Longrightarrow>
   Some h \<in> set (completed_hashes st1 (ta_task_id a))"
proof -
  assume m: "a \<in> set (task_assignments st)"
    and s: "record_submission P now st a r h ms = Some st1"
  let ?f = "\<lambda>x. x\<lparr>ta_status := ''completed'', ta_result_hash := Some h,
                 ta_result_data := Some (stringify P r),
                 ta_execution_time_ms := Some ms, ta_completed_at := Some now\<rparr>"
  let ?rows = "update_where (\<lambda>x. ta_id x = ta_id a) ?f (task_assignments st)"
  from s have st1: "task_assignments st1 = ?rows"
    by (auto simp: record_submission_def split: if_splits)
  from m have "?f a \<in> set ?rows"
    unfolding update_where_def by (simp add: image_iff) (rule bexI [of _ a], simp_all)
  then have "?f a \<in> set (filter (\<lambda>x. ta_task_id x = ta_task_id a \<and> ta_status x = ''completed'') ?rows)"
    by simp
  then have "ta_result_hash (?f a) \<in> set (map ta_result_hash
      (filter (\<lambda>x. ta_task_id x = ta_task_id a \<and> ta_status x = ''completed'') ?rows))"
    by (simp only: set_map) (rule imageI)
  then show ?thesis
    by (simp add: completed_hashes_def st1)
qed

lemma completed_hashes_award_credits:
  assumes "award_credits now st a c d = Some st2"
  shows "completed_hashes st2 tid = completed_hashes st tid"
proof -
  have "map ta_result_hash (filter (\<lambda>x. ta_task_id x = tid \<and> ta_status x = ''completed'')
           (update_where (\<lambda>x. ta_id x = ta_id a)
             (\<lambda>x. x\<lparr>ta_verified := True, ta_credits_awarded := c\<rparr>) rows)) =
         map ta_result_hash (filter (\<lambda>x. ta_task_id x = tid \<and> ta_status x = ''completed'') rows)"
    for rows
    by (induction rows) (auto simp: update_where_def)
  with assms show ?thesis
    by (auto simp: award_credits_def updateTrustScore_def completed_hashes_def split: if_splits)
qed

lemma completed_hashes_finalize_task:
  "finalize_task now st tid' tp n vf = Some st3 \<Longrightarrow>
   completed_hashes st3 tid = completed_hashes st tid"
  by (simp add: completed_hashes_def finalize_task_Some)

text \<open>
  A call that finds the assignment and does not throw: the submission is recorded, the
  first row of the grouping has the highest count, the verified flag of the answer is
  \<open>is_verified\<close> of that row, and the store that the call leaves is the recorded
  submission, credited if verified, and finalized if the completed submissions have
  reached the redundancy count.
\<close>

lemma processRegularResult_accepted:
  assumes sel: "select_assignments st uuid dev = (a, ct, u) # rest"
    and v: "valid_order ord"
    and acc: "fst (processRegularResult P ord now st dev uuid r h ms) \<noteq> Thrown"
  shows "\<exists>st1 st2 hs h0 others vf.
       record_submission P now st a r h ms = Some st1
     \<and> hs = completed_hashes st1 (ta_task_id a)
     \<and> completed_hashes (snd (processRegularResult P ord now st dev uuid r h ms)) (ta_task_id a) = hs
     \<and> ord (group_counts hs) = (h0, count_list hs h0) # others
     \<and> h0 \<in> set hs \<and> (\<forall>h'. count_list hs h' \<le> count_list hs h0)
     \<and> vf = is_verified (h0, count_list hs h0) h (ct_expected_output_hash ct)
              (ct_redundancy_count ct)
     \<and> fst (processRegularResult P ord now st dev uuid r h ms)
         = Submission vf (if vf then ct_reward_credits ct else 0) h
     \<and> (if vf then award_credits now st1 a (ct_reward_credits ct) dev else Some st1) = Some st2
     \<and> (if int (length hs) \<ge> ct_redundancy_count ct
         then finalize_task now st2 (ta_task_id a) (h0, count_list hs h0) (length hs) vf
         else Some st2) = Some (snd (processRegularResult P ord now st dev uuid r h ms))"
proof -
  from acc sel obtain st1 where st1: "record_submission P now st a r h ms = Some st1"
    by (cases "record_submission P now st a r h ms") (auto simp: processRegularResult_def)
  let ?hs = "completed_hashes st1 (ta_task_id a)"
  have "Some h \<in> set ?hs"
    by (rule hash_recorded [OF sel_member [OF sel] st1])
  then have "?hs \<noteq> []"
    by (cases ?hs) simp_all
  from top_valid_order [OF v this] obtain h0 others where
    t: "ord (group_counts ?hs) = (h0, count_list ?hs h0) # others" "h0 \<in> set ?hs"
       "\<forall>h'. count_list ?hs h' \<le> count_list ?hs h0"
    by blast
  have n: "foldl (\<lambda>sum r. sum + snd r) 0 ((h0, count_list ?hs h0) # others) = length ?hs"
    using total_valid_order [OF v, of ?hs] by (simp only: t)
  let ?vf = "is_verified (h0, count_list ?hs h0) h (ct_expected_output_hash ct)
              (ct_redundancy_count ct)"
  let ?aw = "if ?vf then award_credits now st1 a (ct_reward_credits ct) dev else Some st1"
  have unf: "processRegularResult P ord now st dev uuid r h ms =
      (case ?aw of
         None \<Rightarrow> (Thrown, st)
       | Some st2 \<Rightarrow>
           (case (if int (length ?hs) \<ge> ct_redundancy_count ct
                  then finalize_task now st2 (ta_task_id a) (h0, count_list ?hs h0)
                         (length ?hs) ?vf
                  else Some st2) of
              None \<Rightarrow> (Thrown, st)
            | Some st3 \<Rightarrow> (Submission ?vf (if ?vf then ct_reward_credits ct else 0) h, st3)))"
    by (simp only: processRegularResult_def sel st1 all_results_def t list.case prod.case
          option.case Let_def n) simp
  from acc unf obtain st2 where st2: "?aw = Some st2"
    by (cases ?aw) auto
  let ?fin = "if int (length ?hs) \<ge> ct_redundancy_count ct
                  then finalize_task now st2 (ta_task_id a) (h0, count_list ?hs h0)
                         (length ?hs) ?vf
                  else Some st2"
  from acc unf st2 obtain st3 where st3: "?fin = Some st3"
    by (cases ?fin) auto
  have out: "processRegularResult P ord now st dev uuid r h ms
       = (Submission ?vf (if ?vf then ct_reward_credits ct else 0) h, st3)"
    unfolding unf by (simp only: st2 st3 option.case)
  have h2: "completed_hashes st2 (ta_task_id a) = ?hs"
    using st2 by (auto split: if_splits simp: completed_hashes_award_credits)
  have h3: "completed_hashes st3 (ta_task_id a) = ?hs"
    using st3 h2 by (auto split: if_splits simp: completed_hashes_finalize_task)
  show ?thesis
    apply (rule exI [of _ st1], rule exI [of _ st2], rule exI [of _ ?hs])
    apply (rule exI [of _ h0], rule exI [of _ others], rule exI [of _ ?vf])
    apply (simp only: out fst_conv snd_conv st1 h3 t st2 st3 simp_thms)
    done
qed

text \<open>
  The store accepts every statement of a call when the values fit their columns.
\<close>

lemma processRegularResult_fits:
  assumes sel: "select_assignments st uuid dev = (a, ct, u) # rest"
    and v: "valid_order ord"
    and sub: "int32 ms" "\<not> holds_nul P r" "length h \<le> 128"
    and cr: "decimal_fits 6 (ct_reward_credits ct)"
    and us: "list_all (\<lambda>u. decimal_fits 12 (u_total_compute_credits u + ct_reward_credits ct)
                        \<and> decimal_fits 12 (u_claimable_balance u + ct_reward_credits ct)
                        \<and> decimal_fits 12 (u_total_earned u + ct_reward_credits ct))
              (filter (\<lambda>u. u_id u = ta_user_id a) (users st))"
    and tr: "list_all (\<lambda>r. int32 (nt_successful_tasks r + 1)
                        \<and> int32 (nt_total_tasks_completed r + 1))
              (filter (\<lambda>r. nt_device_id r = dev) (node_trust_rows st))"
    and sz: "length (task_assignments st) \<le> 2147483647"
  shows "fst (processRegularResult P ord now st dev uuid r h ms) \<noteq> Thrown"
proof -
  from sub obtain st1 where st1: "record_submission P now st a r h ms = Some st1"
    by (simp add: record_submission_def)
  let ?hs = "completed_hashes st1 (ta_task_id a)"
  have "Some h \<in> set ?hs"
    by (rule hash_recorded [OF sel_member [OF sel] st1])
  then have "?hs \<noteq> []"
    by (cases ?hs) simp_all
  from top_valid_order [OF v this] obtain h0 others where
    t: "ord (group_counts ?hs) = (h0, count_list ?hs h0) # others"
    by blast
  have n: "foldl (\<lambda>sum r. sum + snd r) 0 ((h0, count_list ?hs h0) # others) = length ?hs"
    using total_valid_order [OF v, of ?hs] by (simp only: t)
  from st1 have "\<exists>f. task_assignments st1 = update_where (\<lambda>x. ta_id x = ta_id a) f (task_assignments st)"
    unfolding record_submission_def by (cases "int32 ms \<and> \<not> holds_nul P r \<and> length h \<le> 128") auto
  then have same: "length (task_assignments st1) = length (task_assignments st)"
    by (auto simp: update_where_def)
  have "length ?hs = length (filter (\<lambda>x. ta_task_id x = ta_task_id a \<and> ta_status x = ''completed'')
           (task_assignments st1))"
    by (simp add: completed_hashes_def)
  also have "\<dots> \<le> length (task_assignments st1)"
    by (rule length_filter_le)
  finally have "length ?hs \<le> length (task_assignments st)"
    by (simp only: same)
  with sz have l: "int32 (int (length ?hs))"
    by (simp add: int32_def)
  have "count_list ?hs h0 \<le> length ?hs"
    by (rule count_le_length)
  with l have c: "int32 (int (count_list ?hs h0))"
    by (simp add: int32_def)
  have aw: "award_credits now st1 a (ct_reward_credits ct) dev \<noteq> None"
    using cr us tr by (simp add: award_credits_def record_submission_Some [OF st1])
  have fin: "finalize_task now s (ta_task_id a) (h0, count_list ?hs h0) (length ?hs) vf \<noteq> None"
    for s vf
    using l c by (simp add: finalize_task_def)
  let ?vf = "is_verified (h0, count_list ?hs h0) h (ct_expected_output_hash ct)
              (ct_redundancy_count ct)"
  from aw obtain st2 where
    st2: "(if ?vf then award_credits now st1 a (ct_reward_credits ct) dev else Some st1) = Some st2"
    by (cases ?vf) auto
  from fin [of st2 ?vf] obtain st3 where
    st3: "(if int (length ?hs) \<ge> ct_redundancy_count ct
           then finalize_task now st2 (ta_task_id a) (h0, count_list ?hs h0) (length ?hs) ?vf
           else Some st2) = Some st3"
    by (cases "int (length ?hs) \<ge> ct_redundancy_count ct") auto
  have unf: "processRegularResult P ord now st dev uuid r h ms =
      (case (if ?vf then award_credits now st1 a (ct_reward_credits ct) dev else Some st1) of
         None \<Rightarrow> (Thrown, st)
       | Some st2 \<Rightarrow>
           (case (if int (length ?hs) \<ge> ct_redundancy_count ct
                  then finalize_task now st2 (ta_task_id a) (h0, count_list ?hs h0)
                         (length ?hs) ?vf
                  else Some st2) of
              None \<Rightarrow> (Thrown, st)
            | Some st3 \<Rightarrow> (Submission ?vf (if ?vf then ct_reward_credits ct else 0) h, st3)))"
    by (simp only: processRegularResult_def sel st1 all_results_def t list.case prod.case
          option.case Let_def n) simp
  have "processRegularResult P ord now st dev uuid r h ms =
      (Submission ?vf (if ?vf then ct_reward_credits ct else 0) h, st3)"
    unfolding unf by (simp only: st2 st3 option.case)
  then show ?thesis by simp
qed

text \<open>The definitions that a run on a concrete store unfolds.\<close>

lemmas scenario_defs =
  submit_def submitResult_def processRegularResult_def select_assignments_def
  record_submission_def all_results_def completed_hashes_def group_counts_def
  is_verified_def truthy_text_def award_credits_def finalize_task_def updateTrustScore_def
  update_where_def sample_db_def sample_task_def sample_user_def assignment_row_def
  new_node_trust_def node_a_def node_b_def node_c_def hash_of_def hashResult_def sha256_def
  test_platform_def count_desc_def count_desc_rev_def int32_def decimal_fits_def nul_in_def
  Let_def

lemma credit_db_assignment:
  "select_assignments credit_db ''task_7'' node_a =
     (assignment_row 11 node_a ''assigned'' None,
      sample_task ''matrix_mult'' (Some (hash_of ''H'')) 3 ''assigned'',
      sample_user 11 node_a) # []"
  by (simp add: credit_db_def scenario_defs)

lemma final_db_assignment:
  "select_assignments final_db ''task_7'' node_c =
     (assignment_row 13 node_c ''assigned'' None,
      sample_task ''hash_compute'' (Some (hash_of ''H'')) 3 ''assigned'',
      sample_user 13 node_c) # []"
  by (simp add: final_db_def scenario_defs)

lemma majority_db_assignment:
  "select_assignments (majority_db third) ''task_7'' node_b =
     (assignment_row 12 node_b ''assigned'' None,
      sample_task ''ml_inference'' None 3 ''assigned'',
      sample_user 12 node_b) # []"
  by (simp add: majority_db_def scenario_defs)

subsection \<open>Credit\<close>

text \<open>
  C1 as stated (credit at most once per assignment, also when the node submits again
  after a verified submission) does not hold: the node of \<open>credit_db\<close> submits the
  expected result twice, both submissions are answered as verified with the reward, its
  claimable balance goes from 0 to 1/2 and then to 1, and a second earnings record is
  written.
\<close>

theorem double_credit_counterexample:
  "fst (submit count_desc 10 credit_db node_a ''H'') = Submission True (1 / 2) (hash_of ''H'')
   \<and> fst (submit count_desc 20 credited_once node_a ''H'') = Submission True (1 / 2) (hash_of ''H'')
   \<and> map u_claimable_balance (users credit_db) = [0, 0, 0]
   \<and> map u_claimable_balance (users credited_once) = [1 / 2, 0, 0]
   \<and> map u_claimable_balance (users credited_twice) = [1, 0, 0]
   \<and> length (earnings credited_once) = 1
   \<and> length (earnings credited_twice) = 2"
proof -
  have 1: "fst (submit count_desc 10 credit_db node_a ''H'') = Submission True (1 / 2) (hash_of ''H'')"
    by (simp add: credit_db_def scenario_defs)
  have 2: "fst (submit count_desc 20 credited_once node_a ''H'') = Submission True (1 / 2) (hash_of ''H'')"
    by (simp add: credited_once_def credit_db_def scenario_defs)
  have 3: "map u_claimable_balance (users credit_db) = [0, 0, 0]"
    by (simp add: credit_db_def scenario_defs)
  have 4: "map u_claimable_balance (users credited_once) = [1 / 2, 0, 0]"
    by (simp add: credited_once_def credit_db_def scenario_defs)
  have 5: "map u_claimable_balance (users credited_twice) = [1, 0, 0]"
    by (simp add: credited_twice_def credited_once_def credit_db_def scenario_defs)
  have 6: "length (earnings credited_once) = 1"
    by (simp add: credited_once_def credit_db_def scenario_defs)
  have 7: "length (earnings credited_twice) = 2"
    by (simp add: credited_twice_def credited_once_def credit_db_def scenario_defs)
  from 1 2 3 4 5 6 7 show ?thesis by blast
qed

text \<open>
  C1, amended. Credit is awarded once per processed submission: a call of
  \<open>processRegularResult\<close> that finds the assignment and does not throw (the store
  accepts its statements) answers with the verified flag and the credit, which is the
  reward of the task if verified and 0 otherwise; if verified it adds the reward once to
  the three balances of the user of the assignment and appends one earnings record; if
  unverified it changes neither the users nor the earnings. Nothing in the call looks at
  an earlier submission of the same assignment. A call that throws (\<open>Thrown\<close>) leaves
  the store as it was.
\<close>

theorem credit_per_verified_submission:
  fixes P :: platform and now :: nat and result :: json and resultHash :: string
    and executionTimeMs :: int and deviceId taskUuid :: string and ord :: row_order
  assumes sel: "select_assignments st taskUuid deviceId = (assignment, ct, u) # rest"
  defines "out \<equiv> processRegularResult P ord now st deviceId taskUuid result resultHash
      executionTimeMs"
  shows "(fst out \<noteq> Thrown \<longrightarrow>
         fst out = Submission (verified_flag (fst out))
            (if verified_flag (fst out) then ct_reward_credits ct else 0) resultHash
       \<and> earnings (snd out) = earnings st @
            (if verified_flag (fst out)
             then [\<lparr>e_user_id = ta_user_id assignment, e_earned_amount = ct_reward_credits ct,
                    e_earning_type = ''compute'', e_task_id = ta_task_id assignment\<rparr>]
             else [])
       \<and> users (snd out) =
            (if verified_flag (fst out)
             then update_where (\<lambda>x. u_id x = ta_user_id assignment)
                    (\<lambda>x. x\<lparr>u_total_compute_credits := u_total_compute_credits x + ct_reward_credits ct,
                           u_claimable_balance := u_claimable_balance x + ct_reward_credits ct,
                           u_total_earned := u_total_earned x + ct_reward_credits ct\<rparr>)
                    (users st)
             else users st))
       \<and> (fst out = Thrown \<longrightarrow> snd out = st)"
  unfolding out_def processRegularResult_def
  by (auto simp: sel Let_def record_submission_Some award_credits_Some finalize_task_Some
        split: option.splits list.splits if_splits)

theorem credit_per_verified_submission_witness:
  "select_assignments credit_db ''task_7'' node_a =
       (assignment_row 11 node_a ''assigned'' None,
        sample_task ''matrix_mult'' (Some (hash_of ''H'')) 3 ''assigned'',
        sample_user 11 node_a) # []
   \<and> fst (processRegularResult test_platform count_desc 10 credit_db node_a
         ''task_7'' (JStr ''H'') (hash_of ''H'') 200) \<noteq> Thrown
   \<and> earnings (snd (processRegularResult test_platform count_desc 10 credit_db node_a
         ''task_7'' (JStr ''H'') (hash_of ''H'') 200)) =
       [\<lparr>e_user_id = 11, e_earned_amount = 1 / 2, e_earning_type = ''compute'', e_task_id = 7\<rparr>]
   \<and> earnings (snd (processRegularResult test_platform count_desc 10 credit_db node_a
         ''task_7'' (JStr ''K'') (hash_of ''K'') 200)) = []
   \<and> fst (processRegularResult test_platform count_desc 10 credit_db node_a
         ''task_7'' (JStr ''H'') (hash_of ''H'') 3000000000) = Thrown
   \<and> snd (processRegularResult test_platform count_desc 10 credit_db node_a
         ''task_7'' (JStr ''H'') (hash_of ''H'') 3000000000) = credit_db"
proof -
  have v1: "fst (processRegularResult test_platform count_desc 10 credit_db node_a
         ''task_7'' (JStr ''H'') (hash_of ''H'') 200) = Submission True (1 / 2) (hash_of ''H'')"
    by (simp add: credit_db_def scenario_defs)
  have v2: "fst (processRegularResult test_platform count_desc 10 credit_db node_a
         ''task_7'' (JStr ''K'') (hash_of ''K'') 200) = Submission False 0 (hash_of ''K'')"
    by (simp add: credit_db_def scenario_defs)
  have v3: "fst (processRegularResult test_platform count_desc 10 credit_db node_a
         ''task_7'' (JStr ''H'') (hash_of ''H'') 3000000000) = Thrown"
    by (simp add: credit_db_def scenario_defs)
  have e: "earnings credit_db = []"
    by (simp add: credit_db_def sample_db_def)
  have a: "ta_user_id (assignment_row 11 node_a ''assigned'' None) = 11"
    "ta_task_id (assignment_row 11 node_a ''assigned'' None) = 7"
    "ct_reward_credits (sample_task ''matrix_mult'' (Some (hash_of ''H'')) 3 ''assigned'') = 1 / 2"
    by (simp_all add: assignment_row_def sample_task_def)
  show ?thesis
    using credit_per_verified_submission [OF credit_db_assignment,
        where P = test_platform and ord = count_desc and now = 10
          and result = "JStr ''H''" and resultHash = "hash_of ''H''" and executionTimeMs = 200]
      credit_per_verified_submission [OF credit_db_assignment,
        where P = test_platform and ord = count_desc and now = 10
          and result = "JStr ''K''" and resultHash = "hash_of ''K''" and executionTimeMs = 200]
      credit_per_verified_submission [OF credit_db_assignment,
        where P = test_platform and ord = count_desc and now = 10
          and result = "JStr ''H''" and resultHash = "hash_of ''H''"
          and executionTimeMs = 3000000000]
      credit_db_assignment
    by (simp add: v1 v2 v3 e a)
qed

subsection \<open>Finalization\<close>

text \<open>
  C2 as stated (at most one Task Result Record per task, also when submissions are
  processed after the count has reached the redundancy target) does not hold: in
  \<open>final_db\<close> the third submission reaches the redundancy count 3 and writes a record;
  the same node submits again and a second record is written for the same task.
\<close>

theorem double_finalization_counterexample:
  "map ct_redundancy_count (compute_tasks final_db) = [3]
   \<and> length (completed_hashes finalized_once 7) = 3
   \<and> map tr_task_id (task_results final_db) = []
   \<and> map tr_task_id (task_results finalized_once) = [7]
   \<and> map tr_task_id (task_results finalized_twice) = [7, 7]"
proof -
  have 1: "map ct_redundancy_count (compute_tasks final_db) = [3]"
    by (simp add: final_db_def scenario_defs)
  have 2: "length (completed_hashes finalized_once 7) = 3"
    by (simp add: finalized_once_def final_db_def scenario_defs)
  have 3: "map tr_task_id (task_results final_db) = []"
    by (simp add: final_db_def scenario_defs)
  have 4: "map tr_task_id (task_results finalized_once) = [7]"
    by (simp add: finalized_once_def final_db_def scenario_defs)
  have 5: "map tr_task_id (task_results finalized_twice) = [7, 7]"
    by (simp add: finalized_twice_def finalized_once_def final_db_def scenario_defs)
  from 1 2 3 4 5 show ?thesis by blast
qed

lemma processRegularResult_Thrown:
  "fst (processRegularResult P ord now st dev uuid r h ms) = Thrown \<Longrightarrow>
   snd (processRegularResult P ord now st dev uuid r h ms) = st"
  unfolding processRegularResult_def
  by (auto simp: Let_def split: option.splits list.splits if_splits prod.splits)

text \<open>
  C2, amended. Finalization happens once per processed submission that leaves the
  completed submissions of the task at or above the redundancy count: a call that finds
  the assignment and does not throw, and leaves \<open>n\<close> completed submissions with \<open>n\<close> at
  least the redundancy count, sets the task to completed and appends exactly one Task
  Result Record, with the task and \<open>n\<close>; with \<open>n\<close> below the redundancy count it writes
  no record and leaves the tasks as they are. A call that throws leaves the store as it
  was.
\<close>

theorem finalization_per_submission:
  fixes P :: platform and now :: nat and result :: json and resultHash :: string
    and executionTimeMs :: int and deviceId taskUuid :: string
  assumes v: "valid_order ord"
    and sel: "select_assignments st taskUuid deviceId = (assignment, ct, u) # rest"
  defines "out \<equiv> processRegularResult P ord now st deviceId taskUuid result resultHash
      executionTimeMs"
    and "st' \<equiv> snd (processRegularResult P ord now st deviceId taskUuid result resultHash
      executionTimeMs)"
    and "n \<equiv> length (completed_hashes
      (snd (processRegularResult P ord now st deviceId taskUuid result resultHash
         executionTimeMs)) (ta_task_id assignment))"
  shows "(fst out \<noteq> Thrown \<and> int n \<ge> ct_redundancy_count ct \<longrightarrow>
            (\<exists>rec. task_results st' = task_results st @ [rec]
               \<and> tr_task_id rec = ta_task_id assignment \<and> tr_total_submissions rec = n)
            \<and> list_all (\<lambda>t. ct_id t = ta_task_id assignment \<longrightarrow> ct_status t = ''completed'')
                  (compute_tasks st'))
       \<and> (fst out \<noteq> Thrown \<and> int n < ct_redundancy_count ct \<longrightarrow>
            task_results st' = task_results st \<and> compute_tasks st' = compute_tasks st)
       \<and> (fst out = Thrown \<longrightarrow> st' = st)"
proof -
  have thrown: "st' = st" if "fst out = Thrown"
    using that unfolding out_def st'_def by (rule processRegularResult_Thrown)
  have rest: "(int n \<ge> ct_redundancy_count ct \<longrightarrow>
            (\<exists>rec. task_results st' = task_results st @ [rec]
               \<and> tr_task_id rec = ta_task_id assignment \<and> tr_total_submissions rec = n)
            \<and> list_all (\<lambda>t. ct_id t = ta_task_id assignment \<longrightarrow> ct_status t = ''completed'')
                  (compute_tasks st'))
       \<and> (int n < ct_redundancy_count ct \<longrightarrow>
            task_results st' = task_results st \<and> compute_tasks st' = compute_tasks st)"
    if acc: "fst out \<noteq> Thrown"
  proof -
    from processRegularResult_accepted [OF sel v acc [unfolded out_def]]
    obtain st1 st2 tp vf where
      st1: "record_submission P now st assignment result resultHash executionTimeMs = Some st1"
      and n1: "length (completed_hashes st1 (ta_task_id assignment)) = n"
      and st2: "(if vf then award_credits now st1 assignment (ct_reward_credits ct) deviceId
                 else Some st1) = Some st2"
      and st3: "(if int n \<ge> ct_redundancy_count ct
                 then finalize_task now st2 (ta_task_id assignment) tp n vf
                 else Some st2) = Some st'"
      unfolding st'_def n_def by metis
    have s2: "task_results st2 = task_results st" "compute_tasks st2 = compute_tasks st"
      using st2 record_submission_Some [OF st1]
      by (auto split: if_splits simp: award_credits_Some)
    have low: "task_results st' = task_results st \<and> compute_tasks st' = compute_tasks st"
      if "int n < ct_redundancy_count ct"
      using that st3 s2 by simp
    have high1: "\<exists>rec. task_results st' = task_results st @ [rec]
               \<and> tr_task_id rec = ta_task_id assignment \<and> tr_total_submissions rec = n"
      if "int n \<ge> ct_redundancy_count ct"
      using that st3 s2 by (simp add: finalize_task_Some)
    have high2: "list_all (\<lambda>t. ct_id t = ta_task_id assignment \<longrightarrow> ct_status t = ''completed'')
                  (compute_tasks st')"
      if "int n \<ge> ct_redundancy_count ct"
      using that st3 by (auto simp: finalize_task_Some update_where_def list_all_iff)
    from low high1 high2 show ?thesis by blast
  qed
  from thrown rest show ?thesis by blast
qed

theorem finalization_per_submission_witness:
  "valid_order count_desc
   \<and> select_assignments final_db ''task_7'' node_c =
       (assignment_row 13 node_c ''assigned'' None,
        sample_task ''hash_compute'' (Some (hash_of ''H'')) 3 ''assigned'',
        sample_user 13 node_c) # []
   \<and> fst (processRegularResult test_platform count_desc 10
         final_db node_c ''task_7'' (JStr ''H'') (hash_of ''H'') 200) \<noteq> Thrown
   \<and> map tr_task_id (task_results (snd (processRegularResult test_platform count_desc 10
         final_db node_c ''task_7'' (JStr ''H'') (hash_of ''H'') 200))) = [7]
   \<and> task_results (snd (processRegularResult test_platform count_desc 10
         credit_db node_a ''task_7'' (JStr ''H'') (hash_of ''H'') 200)) = []
   \<and> fst (processRegularResult test_platform count_desc 10
         final_db node_c ''task_7'' (JStr [CHR 0x00]) (hash_of ''H'') 200) = Thrown
   \<and> snd (processRegularResult test_platform count_desc 10
         final_db node_c ''task_7'' (JStr [CHR 0x00]) (hash_of ''H'') 200) = final_db"
proof -
  have t: "task_results final_db = []" "task_results credit_db = []"
    by (simp_all add: final_db_def credit_db_def sample_db_def)
  have a: "ta_task_id (assignment_row 13 node_c ''assigned'' None) = 7"
    "ta_task_id (assignment_row 11 node_a ''assigned'' None) = 7"
    "ct_redundancy_count (sample_task ''hash_compute'' (Some (hash_of ''H'')) 3 ''assigned'') = 3"
    "ct_redundancy_count (sample_task ''matrix_mult'' (Some (hash_of ''H'')) 3 ''assigned'') = 3"
    by (simp_all add: assignment_row_def sample_task_def)
  have r1: "fst (processRegularResult test_platform count_desc 10
         final_db node_c ''task_7'' (JStr ''H'') (hash_of ''H'') 200)
       = Submission True (1 / 2) (hash_of ''H'')"
    by (simp add: final_db_def scenario_defs)
  have r2: "fst (processRegularResult test_platform count_desc 10
         credit_db node_a ''task_7'' (JStr ''H'') (hash_of ''H'') 200)
       = Submission True (1 / 2) (hash_of ''H'')"
    by (simp add: credit_db_def scenario_defs)
  have r3: "fst (processRegularResult test_platform count_desc 10
         final_db node_c ''task_7'' (JStr [CHR 0x00]) (hash_of ''H'') 200) = Thrown"
    by (simp add: final_db_def scenario_defs)
  have n1: "length (completed_hashes (snd (processRegularResult test_platform count_desc 10
         final_db node_c ''task_7'' (JStr ''H'') (hash_of ''H'') 200)) 7) = 3"
    by (simp add: final_db_def scenario_defs)
  have n2: "length (completed_hashes (snd (processRegularResult test_platform count_desc 10
         credit_db node_a ''task_7'' (JStr ''H'') (hash_of ''H'') 200)) 7) = 1"
    by (simp add: credit_db_def scenario_defs)
  show ?thesis
    using finalization_per_submission [OF count_desc_valid final_db_assignment,
        of test_platform 10 "JStr ''H''" "hash_of ''H''" 200]
      finalization_per_submission [OF count_desc_valid credit_db_assignment,
        of test_platform 10 "JStr ''H''" "hash_of ''H''" 200]
      finalization_per_submission [OF count_desc_valid final_db_assignment,
        of test_platform 10 "JStr [CHR 0x00]" "hash_of ''H''" 200]
      count_desc_valid final_db_assignment
    by (auto simp: t a r1 r2 r3 n1 n2)
qed

subsection \<open>Majority consensus\<close>

text \<open>
  C3 as stated (verified iff the hash is the most frequent and its count reaches the
  quorum) does not hold when two hashes tie for the highest count. In \<open>tie_db\<close>
  (redundancy 2, one completed submission with hash A) node B submits hash B: both
  hashes then occur once, and once is the quorum. If the store lists A first, B is not
  verified although no hash is more frequent than B; if it lists B first, B is verified
  although B is not more frequent than A. Both orders sort the groups by descending
  count.
\<close>

theorem majority_tie_counterexample:
  "valid_order count_desc \<and> valid_order count_desc_rev
   \<and> completed_hashes (snd (submit count_desc 10 tie_db node_b ''B'')) 7
       = [Some (hash_of ''A''), Some (hash_of ''B'')]
   \<and> most_frequent [Some (hash_of ''A''), Some (hash_of ''B'')] (Some (hash_of ''B''))
   \<and> quorum [Some (hash_of ''A''), Some (hash_of ''B'')] (Some (hash_of ''B'')) 2
   \<and> \<not> verified_flag (fst (submit count_desc 10 tie_db node_b ''B''))
   \<and> \<not> sole_most_frequent [Some (hash_of ''A''), Some (hash_of ''B'')] (Some (hash_of ''B''))
   \<and> verified_flag (fst (submit count_desc_rev 10 tie_db node_b ''B''))"
proof -
  have 1: "completed_hashes (snd (submit count_desc 10 tie_db node_b ''B'')) 7
       = [Some (hash_of ''A''), Some (hash_of ''B'')]"
    by (simp add: tie_db_def scenario_defs)
  have 2: "most_frequent [Some (hash_of ''A''), Some (hash_of ''B'')] (Some (hash_of ''B''))"
    by (simp add: most_frequent_def scenario_defs)
  have 3: "quorum [Some (hash_of ''A''), Some (hash_of ''B'')] (Some (hash_of ''B'')) 2"
    by (simp add: quorum_def scenario_defs)
  have 4: "\<not> verified_flag (fst (submit count_desc 10 tie_db node_b ''B''))"
    by (simp add: tie_db_def scenario_defs)
  have 5: "\<not> sole_most_frequent [Some (hash_of ''A''), Some (hash_of ''B'')] (Some (hash_of ''B''))"
    by (simp add: sole_most_frequent_def scenario_defs)
  have 6: "verified_flag (fst (submit count_desc_rev 10 tie_db node_b ''B''))"
    by (simp add: tie_db_def scenario_defs)
  from count_desc_valid count_desc_rev_valid 1 2 3 4 5 6 show ?thesis by blast
qed

text \<open>
  The tie does not depend on the two orders above. In \<open>tied_db\<close> hashes A and B occur
  once each, and once is the quorum; when node A submits A again, or node B submits B
  again, the hashes are unchanged. Under every order of the groups by descending count,
  exactly one of the two submissions is verified.
\<close>

lemma tied_db_assignment_a:
  "select_assignments tied_db ''task_7'' node_a =
     (assignment_row 11 node_a ''completed'' (Some (hash_of ''A'')),
      sample_task ''ml_inference'' None 2 ''assigned'', sample_user 11 node_a) # []"
  by (simp add: tied_db_def scenario_defs)

lemma tied_db_assignment_b:
  "select_assignments tied_db ''task_7'' node_b =
     (assignment_row 12 node_b ''completed'' (Some (hash_of ''B'')),
      sample_task ''ml_inference'' None 2 ''assigned'', sample_user 12 node_b) # []"
  by (simp add: tied_db_def scenario_defs)

lemma tied_db_hashes_a:
  "record_submission test_platform now tied_db
      (assignment_row 11 node_a ''completed'' (Some (hash_of ''A''))) (JStr ''A'') (hash_of ''A'') 200
     = Some st1 \<Longrightarrow>
   completed_hashes st1 (ta_task_id (assignment_row 11 node_a ''completed'' (Some (hash_of ''A''))))
   = [Some (hash_of ''A''), Some (hash_of ''B'')]"
  by (auto simp: tied_db_def scenario_defs)

lemma tied_db_hashes_b:
  "record_submission test_platform now tied_db
      (assignment_row 12 node_b ''completed'' (Some (hash_of ''B''))) (JStr ''B'') (hash_of ''B'') 200
     = Some st1 \<Longrightarrow>
   completed_hashes st1 (ta_task_id (assignment_row 12 node_b ''completed'' (Some (hash_of ''B''))))
   = [Some (hash_of ''A''), Some (hash_of ''B'')]"
  by (auto simp: tied_db_def scenario_defs)

lemma tied_db_accepted:
  assumes v: "valid_order ord"
  shows "fst (processRegularResult test_platform ord now tied_db node_a
              ''task_7'' (JStr ''A'') (hash_of ''A'') 200) \<noteq> Thrown"
    and "fst (processRegularResult test_platform ord now tied_db node_b
              ''task_7'' (JStr ''B'') (hash_of ''B'') 200) \<noteq> Thrown"
proof -
  show "fst (processRegularResult test_platform ord now tied_db node_a
              ''task_7'' (JStr ''A'') (hash_of ''A'') 200) \<noteq> Thrown"
    by (rule processRegularResult_fits [OF tied_db_assignment_a v])
       (simp_all add: tied_db_def scenario_defs)
  show "fst (processRegularResult test_platform ord now tied_db node_b
              ''task_7'' (JStr ''B'') (hash_of ''B'') 200) \<noteq> Thrown"
    by (rule processRegularResult_fits [OF tied_db_assignment_b v])
       (simp_all add: tied_db_def scenario_defs)
qed

lemma tie_any_order:
  assumes v: "valid_order ord"
  shows "verified_flag (fst (submit ord now tied_db node_a ''A''))
           \<longleftrightarrow> \<not> verified_flag (fst (submit ord now tied_db node_b ''B''))"
proof -
  let ?hs = "[Some (hash_of ''A''), Some (hash_of ''B'')]"
  have r: "ct_redundancy_count (sample_task ''ml_inference'' None 2 ''assigned'') = 2"
    "ct_expected_output_hash (sample_task ''ml_inference'' None 2 ''assigned'') = None"
    by (simp_all add: sample_task_def)
  have d: "hash_of ''A'' \<noteq> hash_of ''B''"
    by (simp add: scenario_defs)
  from processRegularResult_accepted [OF tied_db_assignment_a v tied_db_accepted(1) [OF v]]
  obtain st1 hs h0 others where
    "record_submission test_platform now tied_db
      (assignment_row 11 node_a ''completed'' (Some (hash_of ''A''))) (JStr ''A'') (hash_of ''A'') 200
     = Some st1"
    and "hs = completed_hashes st1
       (ta_task_id (assignment_row 11 node_a ''completed'' (Some (hash_of ''A''))))"
    and "ord (group_counts hs) = (h0, count_list hs h0) # others"
    and "h0 \<in> set hs"
    and "verified_flag (fst (processRegularResult test_platform ord now tied_db node_a
              ''task_7'' (JStr ''A'') (hash_of ''A'') 200))
          = is_verified (h0, count_list hs h0) (hash_of ''A'')
              (ct_expected_output_hash (sample_task ''ml_inference'' None 2 ''assigned''))
              (ct_redundancy_count (sample_task ''ml_inference'' None 2 ''assigned''))"
    by (metis verified_flag.simps(1))
  then have o: "ord (group_counts ?hs) = (h0, count_list ?hs h0) # others"
    and m: "h0 \<in> set ?hs"
    and a: "verified_flag (fst (processRegularResult test_platform ord now tied_db node_a
              ''task_7'' (JStr ''A'') (hash_of ''A'') 200))
          = is_verified (h0, count_list ?hs h0) (hash_of ''A'') None 2"
    by (simp_all only: tied_db_hashes_a r)
  from processRegularResult_accepted [OF tied_db_assignment_b v tied_db_accepted(2) [OF v]]
  obtain st1' hs' h1 others1 where
    "record_submission test_platform now tied_db
      (assignment_row 12 node_b ''completed'' (Some (hash_of ''B''))) (JStr ''B'') (hash_of ''B'') 200
     = Some st1'"
    and "hs' = completed_hashes st1'
       (ta_task_id (assignment_row 12 node_b ''completed'' (Some (hash_of ''B''))))"
    and "ord (group_counts hs') = (h1, count_list hs' h1) # others1"
    and "verified_flag (fst (processRegularResult test_platform ord now tied_db node_b
              ''task_7'' (JStr ''B'') (hash_of ''B'') 200))
          = is_verified (h1, count_list hs' h1) (hash_of ''B'')
              (ct_expected_output_hash (sample_task ''ml_inference'' None 2 ''assigned''))
              (ct_redundancy_count (sample_task ''ml_inference'' None 2 ''assigned''))"
    by (metis verified_flag.simps(1))
  then have o1: "ord (group_counts ?hs) = (h1, count_list ?hs h1) # others1"
    and b: "verified_flag (fst (processRegularResult test_platform ord now tied_db node_b
              ''task_7'' (JStr ''B'') (hash_of ''B'') 200))
          = is_verified (h1, count_list ?hs h1) (hash_of ''B'') None 2"
    by (simp_all only: tied_db_hashes_b r)
  from o o1 have e: "h1 = h0" by simp
  have s: "submit ord now tied_db node_a ''A'' = processRegularResult test_platform ord now
             tied_db node_a ''task_7'' (JStr ''A'') (hash_of ''A'') 200"
    "submit ord now tied_db node_b ''B'' = processRegularResult test_platform ord now
             tied_db node_b ''task_7'' (JStr ''B'') (hash_of ''B'') 200"
    by (simp_all add: submit_def submitResult_def hash_of_def Let_def)
  from m have "h0 = Some (hash_of ''A'') \<or> h0 = Some (hash_of ''B'')" by simp
  then show ?thesis
    unfolding s a b e using d
    by (auto simp: is_verified_def truthy_text_def)
qed

text \<open>
  C3, amended. For a task without an expected output hash, any order of the grouped
  rows by descending count, and a call that finds the assignment and does not throw: the
  submission is verified exactly when the store returns the group of its hash first and
  the hash occurs at least \<open>\<lceil>redundancy_count / 2\<rceil>\<close> times among the completed
  submissions of the task. So it is verified if its hash is the sole most frequent and
  has the quorum, and only if no hash is more frequent and its hash has the quorum;
  when its hash ties for the highest count, it is verified only if the store returns
  its group first. With redundancy 3, the second submission of A in A, A, B is verified,
  and no submission in A, B, C is.
\<close>

theorem majority_consensus:
  fixes P :: platform and now :: nat and result :: json and resultHash :: string
    and executionTimeMs :: int and deviceId taskUuid :: string
  assumes v: "valid_order ord"
    and sel: "select_assignments st taskUuid deviceId = (assignment, ct, u) # rest"
    and ne: "\<not> truthy_text (ct_expected_output_hash ct)"
  defines "resp \<equiv> fst (processRegularResult P ord now st deviceId taskUuid result resultHash
      executionTimeMs)"
    and "hs \<equiv> completed_hashes
      (snd (processRegularResult P ord now st deviceId taskUuid result resultHash
         executionTimeMs)) (ta_task_id assignment)"
  shows "(resp \<noteq> Thrown \<and> sole_most_frequent hs (Some resultHash)
            \<and> quorum hs (Some resultHash) (ct_redundancy_count ct) \<longrightarrow> verified_flag resp)
       \<and> (verified_flag resp \<longrightarrow>
            most_frequent hs (Some resultHash)
            \<and> quorum hs (Some resultHash) (ct_redundancy_count ct))
       \<and> (resp \<noteq> Thrown \<longrightarrow>
            (verified_flag resp \<longleftrightarrow>
               returned_first ord hs (Some resultHash)
               \<and> quorum hs (Some resultHash) (ct_redundancy_count ct)))"
proof -
  have main: "(sole_most_frequent hs (Some resultHash)
            \<and> quorum hs (Some resultHash) (ct_redundancy_count ct) \<longrightarrow> verified_flag resp)
       \<and> (verified_flag resp \<longrightarrow>
            most_frequent hs (Some resultHash)
            \<and> quorum hs (Some resultHash) (ct_redundancy_count ct))
       \<and> (verified_flag resp \<longleftrightarrow>
               returned_first ord hs (Some resultHash)
               \<and> quorum hs (Some resultHash) (ct_redundancy_count ct))"
    if acc: "resp \<noteq> Thrown"
  proof -
    from processRegularResult_accepted [OF sel v acc [unfolded resp_def]]
    obtain h0 others where
      top: "ord (group_counts hs) = (h0, count_list hs h0) # others"
      and mem: "h0 \<in> set hs"
      and mx: "\<forall>h'. count_list hs h' \<le> count_list hs h0"
      and vf: "verified_flag resp
        = is_verified (h0, count_list hs h0) resultHash (ct_expected_output_hash ct)
            (ct_redundancy_count ct)"
      unfolding hs_def resp_def by (metis verified_flag.simps(1))
    have rf: "returned_first ord hs h \<longleftrightarrow> h0 = h" for h
      by (simp add: returned_first_def top)
    have vq: "verified_flag resp \<longleftrightarrow>
        h0 = Some resultHash \<and> quorum hs h0 (ct_redundancy_count ct)"
      using vf ne by (simp add: is_verified_def quorum_def)
    have a: "verified_flag resp" if s: "sole_most_frequent hs (Some resultHash)"
      and q: "quorum hs (Some resultHash) (ct_redundancy_count ct)"
    proof -
      have "h0 = Some resultHash"
      proof (rule ccontr)
        assume "h0 \<noteq> Some resultHash"
        with s mem have "count_list hs h0 < count_list hs (Some resultHash)"
          by (auto simp: sole_most_frequent_def list_all_iff)
        with mx show False
          by (simp add: not_less [symmetric])
      qed
      with q vq show ?thesis by simp
    qed
    have b: "most_frequent hs (Some resultHash) \<and> quorum hs (Some resultHash) (ct_redundancy_count ct)"
      if "verified_flag resp"
      using that vq mx by (auto simp: most_frequent_def list_all_iff)
    have c: "verified_flag resp \<longleftrightarrow>
               returned_first ord hs (Some resultHash)
               \<and> quorum hs (Some resultHash) (ct_redundancy_count ct)"
      using vq rf by auto
    from a b c show ?thesis by blast
  qed
  have "resp \<noteq> Thrown" if "verified_flag resp"
    using that by (cases resp) simp_all
  with main show ?thesis by blast
qed

theorem majority_consensus_witness:
  "valid_order count_desc
   \<and> select_assignments (majority_db ''B'') ''task_7'' node_b =
       (assignment_row 12 node_b ''assigned'' None,
        sample_task ''ml_inference'' None 3 ''assigned'', sample_user 12 node_b) # []
   \<and> \<not> truthy_text (ct_expected_output_hash (sample_task ''ml_inference'' None 3 ''assigned''))
   \<and> fst (processRegularResult test_platform count_desc 10 (majority_db ''B'')
         node_b ''task_7'' (JStr ''A'') (hash_of ''A'') 200) \<noteq> Thrown
   \<and> verified_flag (fst (processRegularResult test_platform count_desc 10 (majority_db ''B'')
         node_b ''task_7'' (JStr ''A'') (hash_of ''A'') 200))
   \<and> \<not> verified_flag (fst (processRegularResult test_platform count_desc 10 (majority_db ''C'')
         node_b ''task_7'' (JStr ''B'') (hash_of ''B'') 200))"
proof -
  have ne: "\<not> truthy_text (ct_expected_output_hash (sample_task ''ml_inference'' None 3 ''assigned''))"
    by (simp add: truthy_text_def sample_task_def)
  have r: "ct_redundancy_count (sample_task ''ml_inference'' None 3 ''assigned'') = 3"
    "ta_task_id (assignment_row 12 node_b ''assigned'' None) = 7"
    by (simp_all add: sample_task_def assignment_row_def)
  have h1: "completed_hashes (snd (processRegularResult test_platform count_desc 10
         (majority_db ''B'') node_b ''task_7'' (JStr ''A'') (hash_of ''A'') 200)) 7
       = [Some (hash_of ''A''), Some (hash_of ''A''), Some (hash_of ''B'')]"
    by (simp add: majority_db_def scenario_defs)
  have h2: "completed_hashes (snd (processRegularResult test_platform count_desc 10
         (majority_db ''C'') node_b ''task_7'' (JStr ''B'') (hash_of ''B'') 200)) 7
       = [Some (hash_of ''A''), Some (hash_of ''B''), Some (hash_of ''C'')]"
    by (simp add: majority_db_def scenario_defs)
  have a1: "fst (processRegularResult test_platform count_desc 10 (majority_db ''B'')
         node_b ''task_7'' (JStr ''A'') (hash_of ''A'') 200) \<noteq> Thrown"
    by (simp add: majority_db_def scenario_defs)
  have s: "sole_most_frequent [Some (hash_of ''A''), Some (hash_of ''A''), Some (hash_of ''B'')]
             (Some (hash_of ''A''))"
    by (simp add: sole_most_frequent_def scenario_defs)
  have q: "quorum [Some (hash_of ''A''), Some (hash_of ''A''), Some (hash_of ''B'')]
             (Some (hash_of ''A'')) 3"
    by (simp add: quorum_def scenario_defs)
  have nq: "\<not> quorum [Some (hash_of ''A''), Some (hash_of ''B''), Some (hash_of ''C'')]
             (Some (hash_of ''B'')) 3"
    by (simp add: quorum_def scenario_defs)
  show ?thesis
    using majority_consensus [OF count_desc_valid majority_db_assignment [of "''B''"] ne,
        of test_platform 10 "JStr ''A''" "hash_of ''A''" 200]
      majority_consensus [OF count_desc_valid majority_db_assignment [of "''C''"] ne,
        of test_platform 10 "JStr ''B''" "hash_of ''B''" 200]
      count_desc_valid majority_db_assignment [of "''B''"] ne
    by (simp add: r h1 h2 a1 s q nq)
qed

subsection \<open>Deterministic verification\<close>

text \<open>
  C4 as stated (verified iff the hash equals the expected hash and is the most
  frequent) does not hold when the expected hash ties for the highest count. In
  \<open>expected_tie_db\<close> one node has submitted X and node B submits the expected hash H:
  both occur once. If the store lists X first, the submission of H is not verified
  although no hash is more frequent; if it lists H first, it is verified although H is
  not more frequent than X.
\<close>

theorem deterministic_tie_counterexample:
  "valid_order count_desc \<and> valid_order count_desc_rev
   \<and> ct_expected_output_hash (hd (compute_tasks expected_tie_db)) = Some (hash_of ''H'')
   \<and> completed_hashes (snd (submit count_desc 10 expected_tie_db node_b ''H'')) 7
       = [Some (hash_of ''X''), Some (hash_of ''H'')]
   \<and> most_frequent [Some (hash_of ''X''), Some (hash_of ''H'')] (Some (hash_of ''H''))
   \<and> \<not> verified_flag (fst (submit count_desc 10 expected_tie_db node_b ''H''))
   \<and> \<not> sole_most_frequent [Some (hash_of ''X''), Some (hash_of ''H'')] (Some (hash_of ''H''))
   \<and> verified_flag (fst (submit count_desc_rev 10 expected_tie_db node_b ''H''))"
proof -
  have 0: "ct_expected_output_hash (hd (compute_tasks expected_tie_db)) = Some (hash_of ''H'')"
    by (simp add: expected_tie_db_def sample_db_def sample_task_def)
  have 1: "completed_hashes (snd (submit count_desc 10 expected_tie_db node_b ''H'')) 7
       = [Some (hash_of ''X''), Some (hash_of ''H'')]"
    by (simp add: expected_tie_db_def scenario_defs)
  have 2: "most_frequent [Some (hash_of ''X''), Some (hash_of ''H'')] (Some (hash_of ''H''))"
    by (simp add: most_frequent_def scenario_defs)
  have 4: "\<not> verified_flag (fst (submit count_desc 10 expected_tie_db node_b ''H''))"
    by (simp add: expected_tie_db_def scenario_defs)
  have 5: "\<not> sole_most_frequent [Some (hash_of ''X''), Some (hash_of ''H'')] (Some (hash_of ''H''))"
    by (simp add: sole_most_frequent_def scenario_defs)
  have 6: "verified_flag (fst (submit count_desc_rev 10 expected_tie_db node_b ''H''))"
    by (simp add: expected_tie_db_def scenario_defs)
  from count_desc_valid count_desc_rev_valid 0 1 2 4 5 6 show ?thesis by blast
qed

text \<open>
  C4, amended. For a task with a stored (non-empty) expected output hash \<open>H\<close>, any
  order of the grouped rows by descending count, and a call that finds the assignment
  and does not throw: the submission is verified exactly when its hash is \<open>H\<close> and the
  store returns the group of \<open>H\<close> first. So it is verified if its hash is \<open>H\<close> and is
  the sole most frequent hash among the completed submissions, and only if its hash is
  \<open>H\<close> and no hash is more frequent; a submission whose hash is not \<open>H\<close> is never
  verified. When \<open>H\<close> ties for the highest count, the submission is verified only if
  the store returns the group of \<open>H\<close> first.
\<close>

theorem deterministic_verification:
  fixes P :: platform and now :: nat and result :: json and resultHash :: string
    and executionTimeMs :: int and deviceId taskUuid :: string
  assumes v: "valid_order ord"
    and sel: "select_assignments st taskUuid deviceId = (assignment, ct, u) # rest"
    and ex: "ct_expected_output_hash ct = Some H" and tr: "H \<noteq> []"
  defines "resp \<equiv> fst (processRegularResult P ord now st deviceId taskUuid result resultHash
      executionTimeMs)"
    and "hs \<equiv> completed_hashes
      (snd (processRegularResult P ord now st deviceId taskUuid result resultHash
         executionTimeMs)) (ta_task_id assignment)"
  shows "(resp \<noteq> Thrown \<and> resultHash = H \<and> sole_most_frequent hs (Some resultHash)
            \<longrightarrow> verified_flag resp)
       \<and> (verified_flag resp \<longrightarrow> resultHash = H \<and> most_frequent hs (Some resultHash))
       \<and> (resultHash \<noteq> H \<longrightarrow> \<not> verified_flag resp)
       \<and> (resp \<noteq> Thrown \<longrightarrow>
            (verified_flag resp \<longleftrightarrow> resultHash = H \<and> returned_first ord hs (Some resultHash)))"
proof -
  have main: "(resultHash = H \<and> sole_most_frequent hs (Some resultHash) \<longrightarrow> verified_flag resp)
       \<and> (verified_flag resp \<longrightarrow> resultHash = H \<and> most_frequent hs (Some resultHash))
       \<and> (verified_flag resp \<longleftrightarrow> resultHash = H \<and> returned_first ord hs (Some resultHash))"
    if acc: "resp \<noteq> Thrown"
  proof -
    from processRegularResult_accepted [OF sel v acc [unfolded resp_def]]
    obtain h0 others where
      top: "ord (group_counts hs) = (h0, count_list hs h0) # others"
      and mem: "h0 \<in> set hs"
      and mx: "\<forall>h'. count_list hs h' \<le> count_list hs h0"
      and vf: "verified_flag resp
        = is_verified (h0, count_list hs h0) resultHash (ct_expected_output_hash ct)
            (ct_redundancy_count ct)"
      unfolding hs_def resp_def by (metis verified_flag.simps(1))
    have rf: "returned_first ord hs h \<longleftrightarrow> h0 = h" for h
      by (simp add: returned_first_def top)
    have vq: "verified_flag resp \<longleftrightarrow> h0 = Some resultHash \<and> resultHash = H"
      using vf ex tr by (simp add: is_verified_def truthy_text_def)
    have a: "verified_flag resp" if e: "resultHash = H"
      and s: "sole_most_frequent hs (Some resultHash)"
    proof -
      have "h0 = Some resultHash"
      proof (rule ccontr)
        assume "h0 \<noteq> Some resultHash"
        with s mem have "count_list hs h0 < count_list hs (Some resultHash)"
          by (auto simp: sole_most_frequent_def list_all_iff)
        with mx show False
          by (simp add: not_less [symmetric])
      qed
      with e vq show ?thesis by simp
    qed
    have b: "resultHash = H \<and> most_frequent hs (Some resultHash)" if "verified_flag resp"
      using that vq mx by (auto simp: most_frequent_def list_all_iff)
    have c: "verified_flag resp \<longleftrightarrow> resultHash = H \<and> returned_first ord hs (Some resultHash)"
      using vq rf by auto
    from a b c show ?thesis by blast
  qed
  have "resp \<noteq> Thrown" if "verified_flag resp"
    using that by (cases resp) simp_all
  with main show ?thesis by blast
qed

theorem deterministic_verification_witness:
  "valid_order count_desc
   \<and> select_assignments credit_db ''task_7'' node_a =
       (assignment_row 11 node_a ''assigned'' None,
        sample_task ''matrix_mult'' (Some (hash_of ''H'')) 3 ''assigned'',
        sample_user 11 node_a) # []
   \<and> ct_expected_output_hash (sample_task ''matrix_mult'' (Some (hash_of ''H'')) 3 ''assigned'')
       = Some (hash_of ''H'')
   \<and> hash_of ''H'' \<noteq> []
   \<and> fst (processRegularResult test_platform count_desc 10 credit_db
         node_a ''task_7'' (JStr ''H'') (hash_of ''H'') 200) \<noteq> Thrown
   \<and> verified_flag (fst (processRegularResult test_platform count_desc 10 credit_db
         node_a ''task_7'' (JStr ''H'') (hash_of ''H'') 200))
   \<and> \<not> verified_flag (fst (processRegularResult test_platform count_desc 10 credit_db
         node_a ''task_7'' (JStr ''K'') (hash_of ''K'') 200))"
proof -
  have ex: "ct_expected_output_hash (sample_task ''matrix_mult'' (Some (hash_of ''H'')) 3 ''assigned'')
       = Some (hash_of ''H'')"
    by (simp add: sample_task_def)
  have tr: "hash_of ''H'' \<noteq> []"
    by (simp add: scenario_defs)
  have a: "ta_task_id (assignment_row 11 node_a ''assigned'' None) = 7"
    by (simp add: assignment_row_def)
  have h1: "completed_hashes (snd (processRegularResult test_platform count_desc 10 credit_db
         node_a ''task_7'' (JStr ''H'') (hash_of ''H'') 200)) 7 = [Some (hash_of ''H'')]"
    by (simp add: credit_db_def scenario_defs)
  have a1: "fst (processRegularResult test_platform count_desc 10 credit_db
         node_a ''task_7'' (JStr ''H'') (hash_of ''H'') 200) \<noteq> Thrown"
    by (simp add: credit_db_def scenario_defs)
  have s: "sole_most_frequent [Some (hash_of ''H'')] (Some (hash_of ''H''))"
    by (simp add: sole_most_frequent_def)
  have d: "hash_of ''K'' \<noteq> hash_of ''H''"
    by (simp add: scenario_defs)
  note th1 = deterministic_verification [OF count_desc_valid credit_db_assignment ex tr,
        where P = test_platform and now = 10 and result = "JStr ''H''"
          and resultHash = "hash_of ''H''" and executionTimeMs = 200]
  note th2 = deterministic_verification [OF count_desc_valid credit_db_assignment ex tr,
        where P = test_platform and now = 10 and result = "JStr ''K''"
          and resultHash = "hash_of ''K''" and executionTimeMs = 200]
  from th1 have "sole_most_frequent [Some (hash_of ''H'')] (Some (hash_of ''H'')) \<longrightarrow>
      verified_flag (fst (processRegularResult test_platform count_desc 10 credit_db
         node_a ''task_7'' (JStr ''H'') (hash_of ''H'') 200))"
    using a1 by (simp only: a h1 simp_thms) blast
  with s have v1: "verified_flag (fst (processRegularResult test_platform count_desc 10 credit_db
         node_a ''task_7'' (JStr ''H'') (hash_of ''H'') 200))"
    by (rule rev_mp)
  from th2 have "hash_of ''K'' \<noteq> hash_of ''H'' \<longrightarrow>
      \<not> verified_flag (fst (processRegularResult test_platform count_desc 10 credit_db
         node_a ''task_7'' (JStr ''K'') (hash_of ''K'') 200))"
    by blast
  with d have v2: "\<not> verified_flag (fst (processRegularResult test_platform count_desc 10 credit_db
         node_a ''task_7'' (JStr ''K'') (hash_of ''K'') 200))"
    by (rule rev_mp)
  from count_desc_valid credit_db_assignment ex tr a1 v1 v2 show ?thesis
    by (intro conjI)
qed

subsection \<open>Execution-time plausibility\<close>

lemmas json_defs =
  sort_props_def obj_keys_def obj_get_def obj_set_def array_index_def is_digit_def
  js_prop_def prop_or_def

lemmas route_defs =
  submit_route_def verifyExecutionTime_def range_for_def expectedRanges_def
  object_prototype_keys_def

text \<open>
  C8 as stated (every submission whose claimed execution time is below the minimum of
  the task's type is rejected before any state is touched) does not hold: the route
  takes the task type from the submitted result. In \<open>inference_db\<close> the task is an
  inference task, whose minimum is 100 ms; a result that names no task type, submitted
  with 50 ms, is checked against the default range (minimum 10 ms), passes, and is
  processed: the assignment is completed.
\<close>

theorem declared_type_counterexample:
  "map ct_task_type (compute_tasks inference_db) = [''ml_inference'']
   \<and> range_for test_platform ''ml_inference'' (Fin 1) = TimeRange 100 (Fin 15000)
   \<and> of_int 50 < (100 :: rat)
   \<and> map ta_status (task_assignments inference_db) = [''assigned'']
   \<and> fst (submit_route test_platform count_desc 10 inference_db node_a ''task_7''
         (Some fast_result) 50)
       = Status200 (Submission False 0 (hashResult test_platform fast_result))
   \<and> map ta_status (task_assignments (snd (submit_route test_platform count_desc 10
         inference_db node_a ''task_7'' (Some fast_result) 50))) = [''completed'']"
proof -
  have 1: "map ct_task_type (compute_tasks inference_db) = [''ml_inference'']"
    by (simp add: inference_db_def sample_db_def sample_task_def)
  have 2: "range_for test_platform ''ml_inference'' (Fin 1) = TimeRange 100 (Fin 15000)"
    by (simp add: route_defs test_platform_def)
  have 3: "of_int 50 < (100 :: rat)" by simp
  have 4: "map ta_status (task_assignments inference_db) = [''assigned'']"
    by (simp add: inference_db_def sample_db_def assignment_row_def)
  have 5: "fst (submit_route test_platform count_desc 10 inference_db node_a ''task_7''
         (Some fast_result) 50)
       = Status200 (Submission False 0 (hashResult test_platform fast_result))"
    by (simp add: inference_db_def fast_result_def route_defs json_defs scenario_defs
          split: prod.splits)
  have 6: "map ta_status (task_assignments (snd (submit_route test_platform count_desc 10
         inference_db node_a ''task_7'' (Some fast_result) 50))) = [''completed'']"
    by (simp add: inference_db_def fast_result_def route_defs json_defs scenario_defs
          split: prod.splits)
  from 1 2 3 4 5 6 show ?thesis by blast
qed

text \<open>
  C8, amended. The route checks the claimed execution time against the task type and the
  difficulty that the submitted result itself names: \<^verbatim>\<open>result.task_type\<close>, or
  \<^verbatim>\<open>unknown\<close> when that is absent or falsy, converted to a string \<open>key\<close>, and
  \<^verbatim>\<open>result.difficulty\<close>, or 1, converted to a number. For a submission with non-empty
  identifiers and a result that is not null:
  \<^item> when both conversions succeed, \<open>key\<close> is not the name of a property that every
    object inherits, and the time is below the minimum for \<open>key\<close> (5 ms for
    \<^verbatim>\<open>hash_compute\<close>, 100 ms for \<^verbatim>\<open>ml_inference\<close>, 10 ms for \<^verbatim>\<open>matrix_mult\<close> and for
    every other key), the route answers 400 with the reason
    \<^verbatim>\<open>Execution too fast - possible pre-computation\<close> and leaves the store as it was;
  \<^item> when a conversion throws, the route answers 500 and leaves the store as it was;
  \<^item> when \<open>key\<close> is the name of an inherited property, there is no minimum: every
    time passes the check.
\<close>

theorem too_fast_rejected:
  assumes "deviceId \<noteq> []" and "taskUuid \<noteq> []" and "result \<noteq> JNull"
  defines "taskType \<equiv> prop_or result ''task_type'' (JStr ''unknown'')"
    and "difficulty \<equiv> prop_or result ''difficulty'' (JNum 1)"
  shows "(String_of P taskType = Some key \<and> to_number P difficulty = Some d
            \<and> key \<notin> set object_prototype_keys
            \<and> of_int executionTimeMs <
                (if key = ''hash_compute'' then 5 else if key = ''ml_inference'' then 100
                 else (10 :: rat))
          \<longrightarrow> submit_route P ord now st deviceId taskUuid (Some result) executionTimeMs =
                (Status400 ''Execution too fast - possible pre-computation'', st))
       \<and> (String_of P taskType = None \<or> to_number P difficulty = None
          \<longrightarrow> submit_route P ord now st deviceId taskUuid (Some result) executionTimeMs =
                (Status500 ''Failed to submit result'', st))
       \<and> (String_of P taskType = Some key \<and> to_number P difficulty = Some d
            \<and> key \<in> set object_prototype_keys
          \<longrightarrow> verifyExecutionTime P taskType executionTimeMs difficulty = Inr Valid)"
proof -
  have a: "submit_route P ord now st deviceId taskUuid (Some result) executionTimeMs =
                (Status400 ''Execution too fast - possible pre-computation'', st)"
    if "String_of P taskType = Some key" "to_number P difficulty = Some d"
      "key \<notin> set object_prototype_keys"
      "of_int executionTimeMs <
                (if key = ''hash_compute'' then 5 else if key = ''ml_inference'' then 100
                 else (10 :: rat))"
    using that assms(1-3) unfolding taskType_def difficulty_def
    by (simp add: submit_route_def verifyExecutionTime_def range_for_def expectedRanges_def
          split: if_splits)
  have b: "submit_route P ord now st deviceId taskUuid (Some result) executionTimeMs =
                (Status500 ''Failed to submit result'', st)"
    if "String_of P taskType = None \<or> to_number P difficulty = None"
    using that assms(1-3) unfolding taskType_def difficulty_def
    by (auto simp: submit_route_def verifyExecutionTime_def split: option.splits)
  have c: "verifyExecutionTime P taskType executionTimeMs difficulty = Inr Valid"
    if "String_of P taskType = Some key" "to_number P difficulty = Some d"
      "key \<in> set object_prototype_keys"
    using that
    by (auto simp: verifyExecutionTime_def range_for_def expectedRanges_def
          object_prototype_keys_def)
  from a b c show ?thesis by blast
qed

text \<open>
  A submission whose result names the inherited property \<^verbatim>\<open>constructor\<close> as its task
  type passes the check with 1 ms and is processed.
\<close>

lemma inherited_type_processed:
  "fst (submit_route test_platform count_desc 10 inference_db node_a ''task_7''
         (Some inherited_result) 1)
       = Status200 (Submission False 0 (hashResult test_platform inherited_result))
   \<and> map ta_status (task_assignments (snd (submit_route test_platform count_desc 10
         inference_db node_a ''task_7'' (Some inherited_result) 1))) = [''completed'']"
proof -
  have 1: "fst (submit_route test_platform count_desc 10 inference_db node_a ''task_7''
         (Some inherited_result) 1)
       = Status200 (Submission False 0 (hashResult test_platform inherited_result))"
    by (simp add: inference_db_def inherited_result_def route_defs json_defs scenario_defs
          split: prod.splits)
  have 2: "map ta_status (task_assignments (snd (submit_route test_platform count_desc 10
         inference_db node_a ''task_7'' (Some inherited_result) 1))) = [''completed'']"
    by (simp add: inference_db_def inherited_result_def route_defs json_defs scenario_defs
          split: prod.splits)
  from 1 2 show ?thesis by blast
qed

theorem too_fast_rejected_witness:
  "node_a \<noteq> [] \<and> ''task_7'' \<noteq> [] \<and> typed_result \<noteq> JNull
   \<and> String_of test_platform (prop_or typed_result ''task_type'' (JStr ''unknown''))
       = Some ''ml_inference''
   \<and> to_number test_platform (prop_or typed_result ''difficulty'' (JNum 1)) = Some (Fin 1)
   \<and> ''ml_inference'' \<notin> set object_prototype_keys
   \<and> submit_route test_platform count_desc 10 inference_db node_a ''task_7''
         (Some typed_result) 50
       = (Status400 ''Execution too fast - possible pre-computation'', inference_db)
   \<and> String_of test_platform (prop_or unprintable_result ''task_type'' (JStr ''unknown'')) = None
   \<and> submit_route test_platform count_desc 10 inference_db node_a ''task_7''
         (Some unprintable_result) 5
       = (Status500 ''Failed to submit result'', inference_db)
   \<and> String_of test_platform (prop_or inherited_result ''task_type'' (JStr ''unknown''))
       = Some ''constructor''
   \<and> ''constructor'' \<in> set object_prototype_keys
   \<and> verifyExecutionTime test_platform (prop_or inherited_result ''task_type'' (JStr ''unknown''))
         1 (prop_or inherited_result ''difficulty'' (JNum 1)) = Inr Valid"
proof -
  have 1: "node_a \<noteq> []" by (simp add: node_a_def)
  have 2: "''task_7'' \<noteq> []" by simp
  have 3: "typed_result \<noteq> JNull" "unprintable_result \<noteq> JNull" "inherited_result \<noteq> JNull"
    by (simp_all add: typed_result_def unprintable_result_def inherited_result_def)
  have 4: "String_of test_platform (prop_or typed_result ''task_type'' (JStr ''unknown''))
       = Some ''ml_inference''"
    by (simp add: typed_result_def json_defs)
  have 5: "to_number test_platform (prop_or typed_result ''difficulty'' (JNum 1)) = Some (Fin 1)"
    "to_number test_platform (prop_or inherited_result ''difficulty'' (JNum 1)) = Some (Fin 1)"
    by (simp_all add: typed_result_def inherited_result_def json_defs)
  have 6: "''ml_inference'' \<notin> set object_prototype_keys"
    "''constructor'' \<in> set object_prototype_keys"
    by (simp_all add: object_prototype_keys_def)
  have 7: "String_of test_platform (prop_or unprintable_result ''task_type'' (JStr ''unknown''))
       = None"
    by (simp add: unprintable_result_def json_defs)
  have 8: "String_of test_platform (prop_or inherited_result ''task_type'' (JStr ''unknown''))
       = Some ''constructor''"
    by (simp add: inherited_result_def json_defs)
  show ?thesis
    using too_fast_rejected [OF 1 2 3(1), of test_platform "''ml_inference''" "Fin 1" 50
        count_desc 10 inference_db]
      too_fast_rejected [OF 1 2 3(2), of test_platform "''x''" "Fin 1" 5
        count_desc 10 inference_db]
      too_fast_rejected [OF 1 2 3(3), of test_platform "''constructor''" "Fin 1" 1
        count_desc 10 inference_db]
    by (simp add: 1 3 4 5 6 7 8)
qed

subsection \<open>Canary fall-through\<close>

lemmas dispatch_defs =
  getNextTask_def getNodeTrustScore_def getCanaryTask_def getRegularTask_def
  eligible_task_def webgpu_supported_def sql_text_def sql_eq_def
  MIN_TRUST_SCORE_def CANARY_TASK_FREQUENCY_def dispatch_db_def no_gpu_def

text \<open>
  When the pool has no canary of the selected type, \<open>getCanaryTask\<close> calls
  \<open>getRegularTask\<close> with the capabilities in the place of the device identifier. Unless
  a user is registered under the text of the capabilities, no task is assigned.
\<close>

lemma canary_fallthrough_no_assignment:
  assumes "filter (\<lambda>c. cn_task_type c =
              (if webgpu_supported capabilities
               then (if rnd > 1 / 2 then ''matrix_mult'' else ''hash_compute'')
               else ''hash_compute'')) (canary_tasks st) = []"
    and "filter (\<lambda>u. sql_eq (u_device_id u) (sql_text P capabilities)) (users st) = []"
  shows "getCanaryTask P now st capabilities rnd pick = (NoTask, st)
       \<or> getCanaryTask P now st capabilities rnd pick = (TaskError ''Device not registered'', st)"
  using assms
  by (simp add: getCanaryTask_def getRegularTask_def Let_def split: list.splits)

text \<open>
  C9. The claim (when the canary branch is taken and the pool has no canary of the
  selected type, \<open>getNextTask\<close> behaves as a regular task claim for the same node and
  capabilities) is what \<open>getNextTask\<close> does on its regular branch, and not what the
  fall-through does. In \<open>dispatch_db\<close> the canary pool is empty and a task is pending:
  on the canary branch the registered node A is answered \<^verbatim>\<open>Device not registered\<close>,
  while a regular claim for node A, and \<open>getNextTask\<close> on its regular branch, return the
  pending task.
\<close>

theorem canary_fallthrough_loses_device:
  "canary_tasks dispatch_db = []
   \<and> fst (getNextTask test_platform 10 dispatch_db node_a no_gpu (1 / 100) (1 / 2) 0)
       = TaskError ''Device not registered''
   \<and> fst (getRegularTask test_platform 10 dispatch_db (Some (JStr node_a)) no_gpu)
       = RegularTask (sample_task ''hash_compute'' None 3 ''pending'')
   \<and> fst (getNextTask test_platform 10 dispatch_db node_a no_gpu (1 / 2) (1 / 2) 0)
       = RegularTask (sample_task ''hash_compute'' None 3 ''pending'')"
proof -
  have 1: "canary_tasks dispatch_db = []"
    by (simp add: dispatch_db_def sample_db_def)
  have 2: "fst (getNextTask test_platform 10 dispatch_db node_a no_gpu (1 / 100) (1 / 2) 0)
       = TaskError ''Device not registered''"
    by (simp add: dispatch_defs json_defs scenario_defs)
  have 3: "fst (getRegularTask test_platform 10 dispatch_db (Some (JStr node_a)) no_gpu)
       = RegularTask (sample_task ''hash_compute'' None 3 ''pending'')"
    by (simp add: dispatch_defs json_defs scenario_defs)
  have 4: "fst (getNextTask test_platform 10 dispatch_db node_a no_gpu (1 / 2) (1 / 2) 0)
       = RegularTask (sample_task ''hash_compute'' None 3 ''pending'')"
    by (simp add: dispatch_defs json_defs scenario_defs)
  from 1 2 3 4 show ?thesis by blast
qed

end
